theory Spec2Isabelle
  imports Main "HOL-Library.AList" "HOL-Library.Word"
begin

section \<open>The INDI client catalog (indiclient.go)\<close>

text \<open>
  A shallow embedding of the catalog of \<^verbatim>\<open>indiclient.go\<close>: the message handlers that
  the dispatcher runs under the catalog lock, and the consumer calls of the client facade.

  Naming. The Go struct types are declared outside the source file, so their fields are
  known from the way the code uses them. A Go field \<^verbatim>\<open>X\<close> is written with the prefix of
  its struct: \<^verbatim>\<open>dev_X\<close> (Device), \<^verbatim>\<open>prop_X\<close> (the property structs), \<^verbatim>\<open>val_X\<close> (the
  value structs), \<^verbatim>\<open>item_X\<close> (an inbound vector message), \<^verbatim>\<open>el_X\<close> (a child element of
  a message), \<^verbatim>\<open>mj_X\<close> (MessageJSON). Functions keep the names of the Go methods.
\<close>

subsection \<open>String-typed enumerations\<close>

text \<open>
  \<^verbatim>\<open>PropertyState\<close>, \<^verbatim>\<open>SwitchState\<close>, \<^verbatim>\<open>SwitchRule\<close> and \<^verbatim>\<open>PropertyPermission\<close> are Go
  string types: the decoder stores whatever the attribute holds, so any string is a value.
\<close>

type_synonym PropertyState = string
type_synonym SwitchState = string
type_synonym SwitchRule = string
type_synonym PropertyPermission = string
type_synonym byte = "8 word"

definition PropertyStateIdle :: PropertyState where "PropertyStateIdle = ''Idle''"
definition PropertyStateOk :: PropertyState where "PropertyStateOk = ''Ok''"
definition PropertyStateBusy :: PropertyState where "PropertyStateBusy = ''Busy''"
definition PropertyStateAlert :: PropertyState where "PropertyStateAlert = ''Alert''"

definition SwitchStateOff :: SwitchState where "SwitchStateOff = ''Off''"
definition SwitchStateOn :: SwitchState where "SwitchStateOn = ''On''"

definition PropertyPermissionReadOnly :: PropertyPermission where
  "PropertyPermissionReadOnly = ''ro''"
definition PropertyPermissionWriteOnly :: PropertyPermission where
  "PropertyPermissionWriteOnly = ''wo''"
definition PropertyPermissionReadWrite :: PropertyPermission where
  "PropertyPermissionReadWrite = ''rw''"

subsection \<open>Errors\<close>

text \<open>
  The package's error values, \<^verbatim>\<open>errors.New\<close> with its text, and the errors of the
  filesystem and the connection, whose cause lies outside the program.
\<close>

datatype error =
    ErrDeviceNotFound
  | ErrPropertyStateBusy
  | ErrPropertyNotFound
  | ErrPropertyValueNotFound
  | ErrPropertyReadOnly
  | ErrPropertyWithoutDevice
  | ErrInvalidBlobEnable
  | ErrBlobNotFound
  | ErrorsNew string
  | ErrFsOpen
  | ErrDial
  | ErrConnClose

subsection \<open>The catalog's data\<close>

record MessageJSON =
  mj_Message :: string
  mj_Timestamp :: nat

text \<open>
  Modelled from the spec: the value structs \<^verbatim>\<open>TextValue\<close>, \<^verbatim>\<open>NumberValue\<close>,
  \<^verbatim>\<open>SwitchValue\<close>, \<^verbatim>\<open>LightValue\<close> and \<^verbatim>\<open>BlobValue\<close> are declared outside the source
  file. One record holds the union of the fields the code and the spec (section 3) give
  them; a field that a kind does not have keeps Go's zero value. For a BLOB value,
  \<open>val_Value\<close> is the local file path and \<open>val_Size\<close> the size in bytes (an \<^verbatim>\<open>int64\<close>;
  it only ever receives a byte count, so it is an \<open>int\<close> here).
\<close>

record PropValue =
  val_Label :: string
  val_Name :: string
  val_Value :: string
  val_Format :: string
  val_Min :: string
  val_Max :: string
  val_Step :: string
  val_Size :: int

definition TextValue :: "string \<Rightarrow> string \<Rightarrow> string \<Rightarrow> PropValue" where
  "TextValue l n v = \<lparr>val_Label = l, val_Name = n, val_Value = v, val_Format = [],
     val_Min = [], val_Max = [], val_Step = [], val_Size = 0\<rparr>"

definition SwitchValue :: "string \<Rightarrow> string \<Rightarrow> SwitchState \<Rightarrow> PropValue" where
  "SwitchValue l n v = \<lparr>val_Label = l, val_Name = n, val_Value = v, val_Format = [],
     val_Min = [], val_Max = [], val_Step = [], val_Size = 0\<rparr>"

definition LightValue :: "string \<Rightarrow> string \<Rightarrow> PropertyState \<Rightarrow> PropValue" where
  "LightValue l n v = \<lparr>val_Label = l, val_Name = n, val_Value = v, val_Format = [],
     val_Min = [], val_Max = [], val_Step = [], val_Size = 0\<rparr>"

definition NumberValue ::
  "string \<Rightarrow> string \<Rightarrow> string \<Rightarrow> string \<Rightarrow> string \<Rightarrow> string \<Rightarrow> string \<Rightarrow> PropValue" where
  "NumberValue l n v f mn mx st = \<lparr>val_Label = l, val_Name = n, val_Value = v,
     val_Format = f, val_Min = mn, val_Max = mx, val_Step = st, val_Size = 0\<rparr>"

text \<open>\<^verbatim>\<open>BlobValue{Label: l, Name: n}\<close>: path and size keep their zero values.\<close>

definition BlobValue :: "string \<Rightarrow> string \<Rightarrow> PropValue" where
  "BlobValue l n = \<lparr>val_Label = l, val_Name = n, val_Value = [], val_Format = [],
     val_Min = [], val_Max = [], val_Step = [], val_Size = 0\<rparr>"

text \<open>
  Modelled from the spec: the property structs \<^verbatim>\<open>TextProperty\<close>, \<^verbatim>\<open>NumberProperty\<close>,
  \<^verbatim>\<open>SwitchProperty\<close>, \<^verbatim>\<open>LightProperty\<close> and \<^verbatim>\<open>BlobProperty\<close> are declared outside the
  source file. One record holds the union of their fields (spec, section 3: the common
  attributes, the rule of a switch property; a light property has no permission and no
  timeout); a field that a kind does not have keeps Go's zero value.
\<close>

record Property =
  prop_Name :: string
  prop_Label :: string
  prop_Group :: string
  prop_Permissions :: PropertyPermission
  prop_Rule :: SwitchRule
  prop_State :: PropertyState
  prop_Timeout :: int
  prop_Values :: "string \<rightharpoonup> PropValue"
  prop_LastUpdated :: nat
  prop_Messages :: "MessageJSON list"

text \<open>The zero value of a property struct: what reading a missing key of a Go map gives.\<close>

definition Property0 :: Property where
  "Property0 = \<lparr>prop_Name = [], prop_Label = [], prop_Group = [], prop_Permissions = [],
     prop_Rule = [], prop_State = [], prop_Timeout = 0, prop_Values = Map.empty,
     prop_LastUpdated = 0, prop_Messages = []\<rparr>"

record Device =
  dev_Name :: string
  dev_TextProperties :: "string \<rightharpoonup> Property"
  dev_SwitchProperties :: "string \<rightharpoonup> Property"
  dev_NumberProperties :: "string \<rightharpoonup> Property"
  dev_LightProperties :: "string \<rightharpoonup> Property"
  dev_BlobProperties :: "string \<rightharpoonup> Property"
  dev_Messages :: "MessageJSON list"

text \<open>\<^verbatim>\<open>Device{}\<close>, the zero value: every map is nil, which reads as an empty map.\<close>

definition Device0 :: Device where
  "Device0 = \<lparr>dev_Name = [], dev_TextProperties = Map.empty,
     dev_SwitchProperties = Map.empty, dev_NumberProperties = Map.empty,
     dev_LightProperties = Map.empty, dev_BlobProperties = Map.empty, dev_Messages = []\<rparr>"

subsection \<open>Messages\<close>

text \<open>
  Modelled from the spec: the decoded message structs are declared outside the source
  file. \<open>Element\<close> is a child element (\<^verbatim>\<open>defText\<close>, \<^verbatim>\<open>oneText\<close>, ..., \<^verbatim>\<open>oneBLOB\<close>) and
  \<open>Vector\<close> one of the ten vector messages with the attributes of spec section 4.1;
  \<open>item_Elems\<close> is the Go field \<^verbatim>\<open>Texts\<close>, \<^verbatim>\<open>Switches\<close>, \<^verbatim>\<open>Numbers\<close>, \<^verbatim>\<open>Lights\<close> or
  \<^verbatim>\<open>Blobs\<close> of the message.
\<close>

record Element =
  el_Name :: string
  el_Label :: string
  el_Value :: string
  el_Format :: string
  el_Min :: string
  el_Max :: string
  el_Step :: string
  el_Size :: int

record Vector =
  item_Device :: string
  item_Name :: string
  item_Label :: string
  item_Group :: string
  item_State :: PropertyState
  item_Perm :: PropertyPermission
  item_Rule :: SwitchRule
  item_Timeout :: int
  item_Timestamp :: string
  item_Message :: string
  item_Elems :: "Element list"

record Message =
  msg_Device :: string
  msg_Message :: string

record DelProperty =
  del_Device :: string
  del_Name :: string

text \<open>The typed messages that the reader loop hands to the dispatcher.\<close>

datatype inbound =
    DefTextVector Vector
  | DefSwitchVector Vector
  | DefNumberVector Vector
  | DefLightVector Vector
  | DefBlobVector Vector
  | SetSwitchVector Vector
  | SetTextVector Vector
  | SetNumberVector Vector
  | SetLightVector Vector
  | SetBlobVector Vector
  | InMessage Message
  | InDelProperty DelProperty

text \<open>The commands of the outbound queue.\<close>

datatype command =
    GetProperties string string string
  | EnableBlob string string string
  | NewTextVector string string "Element list"
  | NewNumberVector string string "Element list"
  | NewSwitchVector string string "Element list"
  | NewBlobVector string string "Element list"

definition OneText :: "string \<Rightarrow> string \<Rightarrow> Element" where
  "OneText n v = \<lparr>el_Name = n, el_Label = [], el_Value = v, el_Format = [], el_Min = [],
     el_Max = [], el_Step = [], el_Size = 0\<rparr>"

definition OneNumber :: "string \<Rightarrow> string \<Rightarrow> Element" where
  "OneNumber n v = \<lparr>el_Name = n, el_Label = [], el_Value = v, el_Format = [], el_Min = [],
     el_Max = [], el_Step = [], el_Size = 0\<rparr>"

definition OneSwitch :: "string \<Rightarrow> SwitchState \<Rightarrow> Element" where
  "OneSwitch n v = \<lparr>el_Name = n, el_Label = [], el_Value = v, el_Format = [], el_Min = [],
     el_Max = [], el_Step = [], el_Size = 0\<rparr>"

definition OneBlob :: "string \<Rightarrow> string \<Rightarrow> int \<Rightarrow> string \<Rightarrow> Element" where
  "OneBlob n v sz f = \<lparr>el_Name = n, el_Label = [], el_Value = v, el_Format = f, el_Min = [],
     el_Max = [], el_Step = [], el_Size = sz\<rparr>"

subsection \<open>What the program takes from outside\<close>

text \<open>
  The library functions and the run-time choices that the source calls but does not
  define are parameters of the model, so every theorem holds whatever they do:
  \<^item> \<open>TrimSpace\<close>: \<^verbatim>\<open>strings.TrimSpace\<close>;
  \<^item> \<open>Now\<close>: \<^verbatim>\<open>time.Now()\<close>; \<open>ParseInLocation\<close>: \<^verbatim>\<open>time.ParseInLocation\<close> with the
    layout of the source, \<open>None\<close> when it returns an error;
  \<^item> \<open>RangeSeed\<close>: Go leaves the order of \<^verbatim>\<open>range\<close> over a map unspecified; the key it
    yields first is the one at this index (modulo the number of keys);
  \<^item> \<open>OpenFile\<close>: whether \<^verbatim>\<open>fs.OpenFile(name, O_CREATE|O_WRONLY|O_TRUNC, 0666)\<close> succeeds;
  \<^item> \<open>Base64Decode\<close>: the bytes that \<^verbatim>\<open>base64.NewDecoder(base64.StdEncoding, _)\<close> yields
    for a text, \<open>None\<close> when it reports corrupt input;
  \<^item> \<open>FanOut\<close>: whether every subscriber writer registered in \<^verbatim>\<open>blobStreams\<close> under a
    key accepts what \<^verbatim>\<open>io.MultiWriter\<close> writes to it (the registry is filled by
    \<^verbatim>\<open>GetBlobStream\<close>; the readers of its pipes are the consumers);
  \<^item> \<open>Partial\<close>: the bytes that had reached the named file when \<^verbatim>\<open>io.Copy\<close> of a
    text stopped with an error;
  \<^item> \<open>Base\<close>: \<^verbatim>\<open>filepath.Base\<close>; \<open>Dial\<close>: the result of \<^verbatim>\<open>dialer.Dial\<close>;
    \<open>ConnClose\<close>: the result of \<^verbatim>\<open>conn.Close()\<close> (\<open>None\<close> is Go's nil error).
\<close>

record env =
  TrimSpace :: "string \<Rightarrow> string"
  Now :: nat
  ParseInLocation :: "string \<Rightarrow> nat option"
  RangeSeed :: nat
  OpenFile :: "string \<Rightarrow> bool"
  Base64Decode :: "string \<Rightarrow> byte list option"
  FanOut :: "string \<Rightarrow> bool"
  Partial :: "string \<Rightarrow> string \<Rightarrow> byte list"
  Base :: "string \<Rightarrow> string"
  Dial :: "error option"
  ConnClose :: "error option"

subsection \<open>The client\<close>

text \<open>
  \<open>devices\<close> is the Go map \<^verbatim>\<open>map[string]Device\<close> as an association list with distinct
  keys: the code iterates over it, and the list order stands for an order of iteration.
  \<open>conn\<close> tells whether \<^verbatim>\<open>c.conn\<close> is non-nil; \<open>read_chan\<close> and \<open>write_chan\<close> are the two
  channels \<^verbatim>\<open>c.read\<close> and \<^verbatim>\<open>c.write\<close>, \<open>None\<close> for a nil channel, otherwise the messages sent so far; \<open>rwm\<close> tells
  whether the reader-writer lock is held for writing; \<open>fs\<close> is the filesystem, from file
  names to contents.
\<close>

record INDIClient =
  devices :: "(string \<times> Device) list"
  conn :: bool
  read_chan :: "inbound list option"
  write_chan :: "command list option"
  rwm :: bool
  fs :: "string \<rightharpoonup> byte list"

definition NewINDIClient :: "(string \<rightharpoonup> byte list) \<Rightarrow> INDIClient" where
  "NewINDIClient files = \<lparr>devices = [], conn = False, read_chan = None, write_chan = None,
     rwm = False, fs = files\<rparr>"

text \<open>
  \<^verbatim>\<open>Lock\<close> waits while the lock is held: a call that meets a held lock never returns
  (\<open>None\<close>). A read lock is released before the call returns, so it leaves no trace.
\<close>

definition Lock :: "INDIClient \<Rightarrow> INDIClient option" where
  "Lock c = (if rwm c then None else Some (c\<lparr>rwm := True\<rparr>))"

definition Unlock :: "INDIClient \<Rightarrow> INDIClient" where
  "Unlock c = c\<lparr>rwm := False\<rparr>"

definition RLock :: "INDIClient \<Rightarrow> INDIClient option" where
  "RLock c = (if rwm c then None else Some c)"

definition findDevice :: "INDIClient \<Rightarrow> string \<Rightarrow> error + Device" where
  "findDevice c name =
     (case map_of (devices c) name of Some d \<Rightarrow> Inr d | None \<Rightarrow> Inl ErrDeviceNotFound)"

definition findOrCreateDevice :: "INDIClient \<Rightarrow> string \<Rightarrow> Device" where
  "findOrCreateDevice c name =
     (case findDevice c name of
        Inr device \<Rightarrow> device
      | Inl err \<Rightarrow>
          if err = ErrDeviceNotFound then
            \<lparr>dev_Name = name, dev_TextProperties = Map.empty,
             dev_SwitchProperties = Map.empty, dev_NumberProperties = Map.empty,
             dev_LightProperties = Map.empty, dev_BlobProperties = Map.empty,
             dev_Messages = []\<rparr>
          else Device0)"

subsection \<open>Definition messages\<close>

text \<open>
  Each handler runs with the lock held (the dispatcher takes it). The Go maps inside a
  \<^verbatim>\<open>Device\<close> are shared with the stored device, and every handler stores the device back
  under its name, so an update in place and the functional update agree. Logging has no
  effect on the state and is left out.
\<close>

definition defTextVector :: "env \<Rightarrow> Vector \<Rightarrow> INDIClient \<Rightarrow> INDIClient" where
  "defTextVector E item c =
     (let device = findOrCreateDevice c (item_Device item);
          prop = \<lparr>prop_Name = item_Name item, prop_Label = item_Label item,
                  prop_Group = item_Group item, prop_Permissions = item_Perm item,
                  prop_Rule = [], prop_State = item_State item, prop_Timeout = 0,
                  prop_Values = Map.empty, prop_LastUpdated = Now E, prop_Messages = []\<rparr>;
          prop = prop\<lparr>prop_Values :=
                   foldl (\<lambda>vals val. vals(el_Name val \<mapsto>
                            TextValue (el_Label val) (el_Name val) (TrimSpace E (el_Value val))))
                     (prop_Values prop) (item_Elems item)\<rparr>;
          prop = (if length (item_Message item) > 0
                  then prop\<lparr>prop_Messages := prop_Messages prop @
                         [\<lparr>mj_Message = item_Message item, mj_Timestamp = Now E\<rparr>]\<rparr>
                  else prop);
          device = device\<lparr>dev_TextProperties := (dev_TextProperties device)(item_Name item \<mapsto> prop)\<rparr>
      in c\<lparr>devices := AList.update (item_Device item) device (devices c)\<rparr>)"

definition defSwitchVector :: "env \<Rightarrow> Vector \<Rightarrow> INDIClient \<Rightarrow> INDIClient" where
  "defSwitchVector E item c =
     (let device = findOrCreateDevice c (item_Device item);
          prop = \<lparr>prop_Name = item_Name item, prop_Label = item_Label item,
                  prop_Group = item_Group item, prop_Permissions = item_Perm item,
                  prop_Rule = item_Rule item, prop_State = item_State item, prop_Timeout = 0,
                  prop_Values = Map.empty, prop_LastUpdated = Now E, prop_Messages = []\<rparr>;
          prop = prop\<lparr>prop_Values :=
                   foldl (\<lambda>vals val. vals(el_Name val \<mapsto>
                            SwitchValue (el_Label val) (el_Name val) (TrimSpace E (el_Value val))))
                     (prop_Values prop) (item_Elems item)\<rparr>;
          prop = (if length (item_Message item) > 0
                  then prop\<lparr>prop_Messages := prop_Messages prop @
                         [\<lparr>mj_Message = item_Message item, mj_Timestamp = Now E\<rparr>]\<rparr>
                  else prop);
          device = device\<lparr>dev_SwitchProperties := (dev_SwitchProperties device)(item_Name item \<mapsto> prop)\<rparr>
      in c\<lparr>devices := AList.update (item_Device item) device (devices c)\<rparr>)"

definition defNumberVector :: "env \<Rightarrow> Vector \<Rightarrow> INDIClient \<Rightarrow> INDIClient" where
  "defNumberVector E item c =
     (let device = findOrCreateDevice c (item_Device item);
          prop = \<lparr>prop_Name = item_Name item, prop_Label = item_Label item,
                  prop_Group = item_Group item, prop_Permissions = item_Perm item,
                  prop_Rule = [], prop_State = item_State item, prop_Timeout = 0,
                  prop_Values = Map.empty, prop_LastUpdated = Now E, prop_Messages = []\<rparr>;
          prop = prop\<lparr>prop_Values :=
                   foldl (\<lambda>vals val. vals(el_Name val \<mapsto>
                            NumberValue (el_Label val) (el_Name val) (TrimSpace E (el_Value val))
                              (el_Format val) (el_Min val) (el_Max val) (el_Step val)))
                     (prop_Values prop) (item_Elems item)\<rparr>;
          prop = (if length (item_Message item) > 0
                  then prop\<lparr>prop_Messages := prop_Messages prop @
                         [\<lparr>mj_Message = item_Message item, mj_Timestamp = Now E\<rparr>]\<rparr>
                  else prop);
          device = device\<lparr>dev_NumberProperties := (dev_NumberProperties device)(item_Name item \<mapsto> prop)\<rparr>
      in c\<lparr>devices := AList.update (item_Device item) device (devices c)\<rparr>)"

definition defLightVector :: "env \<Rightarrow> Vector \<Rightarrow> INDIClient \<Rightarrow> INDIClient" where
  "defLightVector E item c =
     (let device = findOrCreateDevice c (item_Device item);
          prop = \<lparr>prop_Name = item_Name item, prop_Label = item_Label item,
                  prop_Group = item_Group item, prop_Permissions = [],
                  prop_Rule = [], prop_State = item_State item, prop_Timeout = 0,
                  prop_Values = Map.empty, prop_LastUpdated = Now E, prop_Messages = []\<rparr>;
          prop = prop\<lparr>prop_Values :=
                   foldl (\<lambda>vals val. vals(el_Name val \<mapsto>
                            LightValue (el_Label val) (el_Name val) (TrimSpace E (el_Value val))))
                     (prop_Values prop) (item_Elems item)\<rparr>;
          prop = (if length (item_Message item) > 0
                  then prop\<lparr>prop_Messages := prop_Messages prop @
                         [\<lparr>mj_Message = item_Message item, mj_Timestamp = Now E\<rparr>]\<rparr>
                  else prop);
          device = device\<lparr>dev_LightProperties := (dev_LightProperties device)(item_Name item \<mapsto> prop)\<rparr>
      in c\<lparr>devices := AList.update (item_Device item) device (devices c)\<rparr>)"

text \<open>The BLOB definition sets neither the permission nor a path or a size.\<close>

definition defBlobVector :: "env \<Rightarrow> Vector \<Rightarrow> INDIClient \<Rightarrow> INDIClient" where
  "defBlobVector E item c =
     (let device = findOrCreateDevice c (item_Device item);
          prop = \<lparr>prop_Name = item_Name item, prop_Label = item_Label item,
                  prop_Group = item_Group item, prop_Permissions = [],
                  prop_Rule = [], prop_State = item_State item, prop_Timeout = 0,
                  prop_Values = Map.empty, prop_LastUpdated = Now E, prop_Messages = []\<rparr>;
          prop = prop\<lparr>prop_Values :=
                   foldl (\<lambda>vals val. vals(el_Name val \<mapsto> BlobValue (el_Label val) (el_Name val)))
                     (prop_Values prop) (item_Elems item)\<rparr>;
          prop = (if length (item_Message item) > 0
                  then prop\<lparr>prop_Messages := prop_Messages prop @
                         [\<lparr>mj_Message = item_Message item, mj_Timestamp = Now E\<rparr>]\<rparr>
                  else prop);
          device = device\<lparr>dev_BlobProperties := (dev_BlobProperties device)(item_Name item \<mapsto> prop)\<rparr>
      in c\<lparr>devices := AList.update (item_Device item) device (devices c)\<rparr>)"

subsection \<open>Set messages\<close>

text \<open>
  The timestamp of a set message, as each set handler computes it: the wall clock when
  the attribute is empty or does not parse.
\<close>

definition lastUpdated :: "env \<Rightarrow> string \<Rightarrow> nat" where
  "lastUpdated E ts =
     (if length ts = 0 then Now E
      else (case ParseInLocation E ts of Some t \<Rightarrow> t | None \<Rightarrow> Now E))"

definition setSwitchVector :: "env \<Rightarrow> Vector \<Rightarrow> INDIClient \<Rightarrow> INDIClient" where
  "setSwitchVector E item c =
     (case findDevice c (item_Device item) of
        Inl err \<Rightarrow> c
      | Inr device \<Rightarrow>
          (case dev_SwitchProperties device (item_Name item) of
             None \<Rightarrow> c
           | Some p \<Rightarrow>
               (let prop = p\<lparr>prop_State := item_State item, prop_Timeout := item_Timeout item\<rparr>;
                    prop = prop\<lparr>prop_LastUpdated := lastUpdated E (item_Timestamp item)\<rparr>;
                    prop = prop\<lparr>prop_Values :=
                             foldl (\<lambda>vals val.
                                      case vals (el_Name val) of
                                        None \<Rightarrow> vals
                                      | Some v \<Rightarrow> vals(el_Name val \<mapsto>
                                          v\<lparr>val_Value := TrimSpace E (el_Value val)\<rparr>))
                               (prop_Values prop) (item_Elems item)\<rparr>;
                    prop = (if length (item_Message item) > 0
                            then prop\<lparr>prop_Messages := prop_Messages prop @
                                   [\<lparr>mj_Message = item_Message item, mj_Timestamp = Now E\<rparr>]\<rparr>
                            else prop);
                    device = device\<lparr>dev_SwitchProperties :=
                               (dev_SwitchProperties device)(item_Name item \<mapsto> prop)\<rparr>
                in c\<lparr>devices := AList.update (item_Device item) device (devices c)\<rparr>)))"

definition setTextVector :: "env \<Rightarrow> Vector \<Rightarrow> INDIClient \<Rightarrow> INDIClient" where
  "setTextVector E item c =
     (case findDevice c (item_Device item) of
        Inl err \<Rightarrow> c
      | Inr device \<Rightarrow>
          (case dev_TextProperties device (item_Name item) of
             None \<Rightarrow> c
           | Some p \<Rightarrow>
               (let prop = p\<lparr>prop_State := item_State item, prop_Timeout := item_Timeout item\<rparr>;
                    prop = prop\<lparr>prop_LastUpdated := lastUpdated E (item_Timestamp item)\<rparr>;
                    prop = prop\<lparr>prop_Values :=
                             foldl (\<lambda>vals val.
                                      case vals (el_Name val) of
                                        None \<Rightarrow> vals
                                      | Some v \<Rightarrow> vals(el_Name val \<mapsto>
                                          v\<lparr>val_Value := TrimSpace E (el_Value val)\<rparr>))
                               (prop_Values prop) (item_Elems item)\<rparr>;
                    prop = (if length (item_Message item) > 0
                            then prop\<lparr>prop_Messages := prop_Messages prop @
                                   [\<lparr>mj_Message = item_Message item, mj_Timestamp = Now E\<rparr>]\<rparr>
                            else prop);
                    device = device\<lparr>dev_TextProperties :=
                               (dev_TextProperties device)(item_Name item \<mapsto> prop)\<rparr>
                in c\<lparr>devices := AList.update (item_Device item) device (devices c)\<rparr>)))"

text \<open>The number handler also prints the message to standard output, which is no state.\<close>

definition setNumberVector :: "env \<Rightarrow> Vector \<Rightarrow> INDIClient \<Rightarrow> INDIClient" where
  "setNumberVector E item c =
     (case findDevice c (item_Device item) of
        Inl err \<Rightarrow> c
      | Inr device \<Rightarrow>
          (case dev_NumberProperties device (item_Name item) of
             None \<Rightarrow> c
           | Some p \<Rightarrow>
               (let prop = p\<lparr>prop_State := item_State item, prop_Timeout := item_Timeout item\<rparr>;
                    prop = prop\<lparr>prop_LastUpdated := lastUpdated E (item_Timestamp item)\<rparr>;
                    prop = prop\<lparr>prop_Values :=
                             foldl (\<lambda>vals val.
                                      case vals (el_Name val) of
                                        None \<Rightarrow> vals
                                      | Some v \<Rightarrow> vals(el_Name val \<mapsto>
                                          v\<lparr>val_Value := TrimSpace E (el_Value val)\<rparr>))
                               (prop_Values prop) (item_Elems item)\<rparr>;
                    prop = (if length (item_Message item) > 0
                            then prop\<lparr>prop_Messages := prop_Messages prop @
                                   [\<lparr>mj_Message = item_Message item, mj_Timestamp = Now E\<rparr>]\<rparr>
                            else prop);
                    device = device\<lparr>dev_NumberProperties :=
                               (dev_NumberProperties device)(item_Name item \<mapsto> prop)\<rparr>
                in c\<lparr>devices := AList.update (item_Device item) device (devices c)\<rparr>)))"

text \<open>A light property has no timeout: only the state is overwritten.\<close>

definition setLightVector :: "env \<Rightarrow> Vector \<Rightarrow> INDIClient \<Rightarrow> INDIClient" where
  "setLightVector E item c =
     (case findDevice c (item_Device item) of
        Inl err \<Rightarrow> c
      | Inr device \<Rightarrow>
          (case dev_LightProperties device (item_Name item) of
             None \<Rightarrow> c
           | Some p \<Rightarrow>
               (let prop = p\<lparr>prop_State := item_State item\<rparr>;
                    prop = prop\<lparr>prop_LastUpdated := lastUpdated E (item_Timestamp item)\<rparr>;
                    prop = prop\<lparr>prop_Values :=
                             foldl (\<lambda>vals val.
                                      case vals (el_Name val) of
                                        None \<Rightarrow> vals
                                      | Some v \<Rightarrow> vals(el_Name val \<mapsto>
                                          v\<lparr>val_Value := TrimSpace E (el_Value val)\<rparr>))
                               (prop_Values prop) (item_Elems item)\<rparr>;
                    prop = (if length (item_Message item) > 0
                            then prop\<lparr>prop_Messages := prop_Messages prop @
                                   [\<lparr>mj_Message = item_Message item, mj_Timestamp = Now E\<rparr>]\<rparr>
                            else prop);
                    device = device\<lparr>dev_LightProperties :=
                               (dev_LightProperties device)(item_Name item \<mapsto> prop)\<rparr>
                in c\<lparr>devices := AList.update (item_Device item) device (devices c)\<rparr>)))"

subsection \<open>The BLOB sink\<close>

text \<open>\<^verbatim>\<open>fmt.Sprintf("%s_%s_%s%s", ...)\<close> and \<^verbatim>\<open>fmt.Sprintf("%s_%s_%s", ...)\<close>.\<close>

definition blobFileName :: "string \<Rightarrow> string \<Rightarrow> string \<Rightarrow> string \<Rightarrow> string" where
  "blobFileName device name val format = device @ ''_'' @ name @ ''_'' @ val @ format"

definition blobStreamKey :: "string \<Rightarrow> string \<Rightarrow> string \<Rightarrow> string" where
  "blobStreamKey device name val = device @ ''_'' @ name @ ''_'' @ val"

text \<open>
  \<^verbatim>\<open>io.Copy(dest, r)\<close> from the base64 decoder over the trimmed text into the subscribers
  and, last, the file: the contents of the file afterwards, and the bytes written when the
  copy ends without an error (\<open>None\<close> when it ends with one).
\<close>

definition io_Copy :: "env \<Rightarrow> string \<Rightarrow> string \<Rightarrow> string \<Rightarrow> byte list \<times> byte list option" where
  "io_Copy E key fname text =
     (case Base64Decode E text of
        None \<Rightarrow> (Partial E fname text, None)
      | Some bytes \<Rightarrow>
          if FanOut E key then (bytes, Some bytes) else (Partial E fname text, None))"

text \<open>
  The body of the loop over \<^verbatim>\<open>item.Blobs\<close>, on the value map of the property and the
  filesystem. \<^verbatim>\<open>f.Name()\<close> is the name the file was opened with.
\<close>

definition setBlob_one ::
  "env \<Rightarrow> Vector \<Rightarrow> (string \<rightharpoonup> PropValue) \<times> (string \<rightharpoonup> byte list) \<Rightarrow> Element
     \<Rightarrow> (string \<rightharpoonup> PropValue) \<times> (string \<rightharpoonup> byte list)" where
  "setBlob_one E item st val =
     (case st of (vals, files) \<Rightarrow>
        (case vals (el_Name val) of
           None \<Rightarrow> (vals, files)
         | Some v \<Rightarrow>
             (let fname = blobFileName (item_Device item) (item_Name item) (el_Name val)
                            (el_Format val)
              in if \<not> OpenFile E fname then (vals, files)
                 else
                   (let files = files(fname \<mapsto> []);
                        key = blobStreamKey (item_Device item) (item_Name item) (el_Name val);
                        text = TrimSpace E (el_Value val)
                    in case io_Copy E key fname text of
                         (content, None) \<Rightarrow> (vals, files(fname \<mapsto> content))
                       | (content, Some written) \<Rightarrow>
                           (vals(el_Name val \<mapsto>
                              v\<lparr>val_Value := fname, val_Size := int (length written)\<rparr>),
                            files(fname \<mapsto> content))))))"

definition setBlobVector :: "env \<Rightarrow> Vector \<Rightarrow> INDIClient \<Rightarrow> INDIClient" where
  "setBlobVector E item c =
     (case findDevice c (item_Device item) of
        Inl err \<Rightarrow> c
      | Inr device \<Rightarrow>
          (case dev_BlobProperties device (item_Name item) of
             None \<Rightarrow> c
           | Some p \<Rightarrow>
               (let prop = p\<lparr>prop_State := item_State item, prop_Timeout := item_Timeout item\<rparr>;
                    prop = prop\<lparr>prop_LastUpdated := lastUpdated E (item_Timestamp item)\<rparr>;
                    (vals, files) = foldl (setBlob_one E item) (prop_Values prop, fs c)
                                      (item_Elems item);
                    prop = prop\<lparr>prop_Values := vals\<rparr>;
                    prop = (if length (item_Message item) > 0
                            then prop\<lparr>prop_Messages := prop_Messages prop @
                                   [\<lparr>mj_Message = item_Message item, mj_Timestamp = Now E\<rparr>]\<rparr>
                            else prop);
                    device = device\<lparr>dev_BlobProperties :=
                               (dev_BlobProperties device)(item_Name item \<mapsto> prop)\<rparr>
                in c\<lparr>devices := AList.update (item_Device item) device (devices c),
                     fs := files\<rparr>)))"

subsection \<open>Device messages and deletion\<close>

definition message :: "env \<Rightarrow> Message \<Rightarrow> INDIClient \<Rightarrow> INDIClient" where
  "message E item c =
     (case findDevice c (msg_Device item) of
        Inl err \<Rightarrow> c
      | Inr device \<Rightarrow>
          (let device = device\<lparr>dev_Messages := dev_Messages device @
                          [\<lparr>mj_Message = msg_Message item, mj_Timestamp = Now E\<rparr>]\<rparr>
           in c\<lparr>devices := AList.update (msg_Device item) device (devices c)\<rparr>))"

text \<open>
  With an empty device name the source ranges over the map, and the body of that loop
  deletes the key and returns: the loop runs for the first key only.
\<close>

definition delProperty :: "env \<Rightarrow> DelProperty \<Rightarrow> INDIClient \<Rightarrow> INDIClient" where
  "delProperty E item c =
     (if length (del_Device item) = 0 then
        (case devices c of
           [] \<Rightarrow> c
         | _ # _ \<Rightarrow>
             (let key = fst (devices c ! (RangeSeed E mod length (devices c)))
              in c\<lparr>devices := AList.delete key (devices c)\<rparr>))
      else if length (del_Name item) = 0 then
        c\<lparr>devices := AList.delete (del_Device item) (devices c)\<rparr>
      else
        (let device = findOrCreateDevice c (del_Device item);
             device = device\<lparr>dev_TextProperties := (dev_TextProperties device)(del_Name item := None)\<rparr>;
             device = device\<lparr>dev_NumberProperties := (dev_NumberProperties device)(del_Name item := None)\<rparr>;
             device = device\<lparr>dev_SwitchProperties := (dev_SwitchProperties device)(del_Name item := None)\<rparr>;
             device = device\<lparr>dev_LightProperties := (dev_LightProperties device)(del_Name item := None)\<rparr>;
             device = device\<lparr>dev_BlobProperties := (dev_BlobProperties device)(del_Name item := None)\<rparr>
         in c\<lparr>devices := AList.update (del_Device item) device (devices c)\<rparr>))"

subsection \<open>The dispatcher\<close>

text \<open>The type switch of \<^verbatim>\<open>startRead\<close>, and the handling of one message under the lock.\<close>

fun handle :: "env \<Rightarrow> inbound \<Rightarrow> INDIClient \<Rightarrow> INDIClient" where
  "handle E (DefTextVector item) c = defTextVector E item c"
| "handle E (DefSwitchVector item) c = defSwitchVector E item c"
| "handle E (DefNumberVector item) c = defNumberVector E item c"
| "handle E (DefLightVector item) c = defLightVector E item c"
| "handle E (DefBlobVector item) c = defBlobVector E item c"
| "handle E (SetSwitchVector item) c = setSwitchVector E item c"
| "handle E (SetTextVector item) c = setTextVector E item c"
| "handle E (SetNumberVector item) c = setNumberVector E item c"
| "handle E (SetLightVector item) c = setLightVector E item c"
| "handle E (SetBlobVector item) c = setBlobVector E item c"
| "handle E (InMessage item) c = message E item c"
| "handle E (InDelProperty item) c = delProperty E item c"

definition dispatch :: "env \<Rightarrow> inbound \<Rightarrow> INDIClient \<Rightarrow> INDIClient option" where
  "dispatch E i c = (case Lock c of None \<Rightarrow> None | Some c \<Rightarrow> Some (Unlock (handle E i c)))"

text \<open>
  Inbound messages are handled in wire order; each comes with what the outside decides
  while it is handled.
\<close>

fun process :: "(env \<times> inbound) list \<Rightarrow> INDIClient \<Rightarrow> INDIClient" where
  "process [] c = c"
| "process ((E, i) # ms) c = process ms (handle E i c)"

subsection \<open>The client facade: connection and readers\<close>

text \<open>
  A consumer call returns a pair: what it returns, \<open>None\<close> when it never returns, and the
  client it leaves. Go's \<^verbatim>\<open>error\<close> result is an \<open>error option\<close>, \<open>None\<close> for nil.
\<close>

definition Connect :: "env \<Rightarrow> INDIClient \<Rightarrow> error option option \<times> INDIClient" where
  "Connect E c =
     (case Dial E of
        Some err \<Rightarrow> (Some (Some err), c)
      | None \<Rightarrow>
          (case Lock c of
             None \<Rightarrow> (None, c)
           | Some c \<Rightarrow>
               (let c = delProperty E \<lparr>del_Device = [], del_Name = []\<rparr> c;
                    c = Unlock c;
                    c = c\<lparr>conn := True\<rparr>;
                    c = c\<lparr>read_chan := Some [], write_chan := Some []\<rparr>
                in (Some None, c))))"

definition Disconnect :: "env \<Rightarrow> INDIClient \<Rightarrow> error option option \<times> INDIClient" where
  "Disconnect E c =
     (case Lock c of
        None \<Rightarrow> (None, c)
      | Some c \<Rightarrow>
          (let c = delProperty E \<lparr>del_Device = [], del_Name = []\<rparr> c;
               c = Unlock c
           in if \<not> conn c then (Some None, c)
              else
                (let err = ConnClose E;
                     c = c\<lparr>conn := False\<rparr>;
                     c = (if read_chan c \<noteq> None then c\<lparr>read_chan := None\<rparr> else c);
                     c = (if write_chan c \<noteq> None then c\<lparr>write_chan := None\<rparr> else c)
                 in (Some err, c))))"

text \<open>The keys of the device map, in an order that Go leaves unspecified.\<close>

definition Devices :: "INDIClient \<Rightarrow> string list option \<times> INDIClient" where
  "Devices c =
     (case RLock c of
        None \<Rightarrow> (None, c)
      | Some c \<Rightarrow> (Some (map fst (devices c)), c))"

definition GetText ::
  "string \<Rightarrow> string \<Rightarrow> string \<Rightarrow> INDIClient \<Rightarrow> (error + PropValue) option \<times> INDIClient" where
  "GetText deviceName propName textName c =
     (case RLock c of
        None \<Rightarrow> (None, c)
      | Some c \<Rightarrow>
          (case findDevice c deviceName of
             Inl err \<Rightarrow> (Some (Inl ErrDeviceNotFound), c)
           | Inr device \<Rightarrow>
               (case dev_TextProperties device propName of
                  None \<Rightarrow> (Some (Inl ErrPropertyNotFound), c)
                | Some prop \<Rightarrow>
                    (case prop_Values prop textName of
                       Some val \<Rightarrow> (Some (Inr val), c)
                     | None \<Rightarrow> (Some (Inl ErrPropertyValueNotFound), c)))))"

definition GetNumber ::
  "string \<Rightarrow> string \<Rightarrow> string \<Rightarrow> INDIClient \<Rightarrow> (error + PropValue) option \<times> INDIClient" where
  "GetNumber deviceName propName numberName c =
     (case RLock c of
        None \<Rightarrow> (None, c)
      | Some c \<Rightarrow>
          (case findDevice c deviceName of
             Inl err \<Rightarrow> (Some (Inl ErrDeviceNotFound), c)
           | Inr device \<Rightarrow>
               (case dev_NumberProperties device propName of
                  None \<Rightarrow> (Some (Inl ErrPropertyNotFound), c)
                | Some prop \<Rightarrow>
                    (case prop_Values prop numberName of
                       Some val \<Rightarrow> (Some (Inr val), c)
                     | None \<Rightarrow> (Some (Inl ErrPropertyValueNotFound), c)))))"

definition GetSwitch ::
  "string \<Rightarrow> string \<Rightarrow> string \<Rightarrow> INDIClient \<Rightarrow> (error + PropValue) option \<times> INDIClient" where
  "GetSwitch deviceName propName switchName c =
     (case RLock c of
        None \<Rightarrow> (None, c)
      | Some c \<Rightarrow>
          (case findDevice c deviceName of
             Inl err \<Rightarrow> (Some (Inl ErrDeviceNotFound), c)
           | Inr device \<Rightarrow>
               (case dev_SwitchProperties device propName of
                  None \<Rightarrow> (Some (Inl ErrPropertyNotFound), c)
                | Some prop \<Rightarrow>
                    (case prop_Values prop switchName of
                       Some val \<Rightarrow> (Some (Inr val), c)
                     | None \<Rightarrow> (Some (Inl ErrPropertyValueNotFound), c)))))"

subsection \<open>The client facade: BLOBs\<close>

text \<open>
  \<^verbatim>\<open>GetBlob\<close> returns the reader (here: the contents of the file it reads), the base name
  and the length. \<^verbatim>\<open>fs.Open\<close> fails on a file that does not exist. The source resets the
  path and the size in \<^verbatim>\<open>val\<close>, its own copy of the map's element, and stores \<^verbatim>\<open>prop\<close>
  and \<^verbatim>\<open>device\<close> back; \<^verbatim>\<open>val\<close> itself is not stored.
\<close>

definition GetBlob ::
  "env \<Rightarrow> string \<Rightarrow> string \<Rightarrow> string \<Rightarrow> INDIClient
     \<Rightarrow> (error + byte list \<times> string \<times> int) option \<times> INDIClient" where
  "GetBlob E deviceName propName blobName c =
     (case Lock c of
        None \<Rightarrow> (None, c)
      | Some c \<Rightarrow>
          (case findDevice c deviceName of
             Inl err \<Rightarrow> (Some (Inl err), Unlock c)
           | Inr device \<Rightarrow>
               (case dev_BlobProperties device propName of
                  None \<Rightarrow> (Some (Inl ErrPropertyNotFound), Unlock c)
                | Some prop \<Rightarrow>
                    (case prop_Values prop blobName of
                       None \<Rightarrow> (Some (Inl ErrPropertyValueNotFound), Unlock c)
                     | Some val \<Rightarrow>
                         if val_Size val = 0 \<or> val_Name val = [] then
                           (Some (Inl ErrBlobNotFound), Unlock c)
                         else
                           (case fs c (val_Value val) of
                              None \<Rightarrow> (Some (Inl ErrFsOpen), Unlock c)
                            | Some rdr \<Rightarrow>
                                (let fileName = Base E (val_Value val);
                                     length = val_Size val;
                                     val = val\<lparr>val_Value := [], val_Size := 0\<rparr>;
                                     device = device\<lparr>dev_BlobProperties :=
                                                (dev_BlobProperties device)(propName \<mapsto> prop)\<rparr>;
                                     c = c\<lparr>devices := AList.update deviceName device (devices c)\<rparr>
                                 in (Some (Inr (rdr, fileName, length)), Unlock c)))))))"

definition BlobAvailable ::
  "string \<Rightarrow> string \<Rightarrow> string \<Rightarrow> INDIClient \<Rightarrow> bool option \<times> INDIClient" where
  "BlobAvailable deviceName propName blobName c =
     (case RLock c of
        None \<Rightarrow> (None, c)
      | Some c \<Rightarrow>
          (case findDevice c deviceName of
             Inl err \<Rightarrow> (Some False, c)
           | Inr device \<Rightarrow>
               (case dev_BlobProperties device propName of
                  None \<Rightarrow> (Some False, c)
                | Some prop \<Rightarrow>
                    (case prop_Values prop blobName of
                       None \<Rightarrow> (Some False, c)
                     | Some val \<Rightarrow>
                         if val_Size val = 0 \<or> val_Name val = [] then (Some False, c)
                         else (Some True, c)))))"

subsection \<open>The client facade: setting values\<close>

text \<open>
  Reading a Go map at a missing key gives the zero value of the element type: this is
  how the polling loops read \<^verbatim>\<open>c.devices[deviceName].TextProperties[propName].State\<close>.
\<close>

definition devices_index :: "(string \<times> Device) list \<Rightarrow> string \<Rightarrow> Device" where
  "devices_index devs name = (case map_of devs name of None \<Rightarrow> Device0 | Some d \<Rightarrow> d)"

definition props_index :: "(string \<rightharpoonup> Property) \<Rightarrow> string \<Rightarrow> Property" where
  "props_index props name = (case props name of None \<Rightarrow> Property0 | Some p \<Rightarrow> p)"

text \<open>
  The polling loop at the end of each set call. Between two iterations the dispatcher may
  handle any number of messages, so the loop is a function of the device maps that its
  iterations read, in order: it returns at the first one that shows Ok or Alert, and with
  the list exhausted it has not returned (\<open>None\<close>).
\<close>

fun waitText ::
  "string \<Rightarrow> string \<Rightarrow> string \<Rightarrow> (string \<times> Device) list list \<Rightarrow> error option option" where
  "waitText deviceName propName name [] = None"
| "waitText deviceName propName name (devs # obs) =
     (let state = prop_State (props_index (dev_TextProperties (devices_index devs deviceName)) propName)
      in if state = PropertyStateOk then Some None
         else if state = PropertyStateAlert then
           Some (Some (ErrorsNew (''Unable to set text property: '' @ name)))
         else waitText deviceName propName name obs)"

fun waitNumber ::
  "string \<Rightarrow> string \<Rightarrow> string \<Rightarrow> (string \<times> Device) list list \<Rightarrow> error option option" where
  "waitNumber deviceName propName name [] = None"
| "waitNumber deviceName propName name (devs # obs) =
     (let state = prop_State (props_index (dev_NumberProperties (devices_index devs deviceName)) propName)
      in if state = PropertyStateOk then Some None
         else if state = PropertyStateAlert then
           Some (Some (ErrorsNew (''Unable to set number property: '' @ name)))
         else waitNumber deviceName propName name obs)"

fun waitSwitch ::
  "string \<Rightarrow> string \<Rightarrow> string \<Rightarrow> (string \<times> Device) list list \<Rightarrow> error option option" where
  "waitSwitch deviceName propName name [] = None"
| "waitSwitch deviceName propName name (devs # obs) =
     (let state = prop_State (props_index (dev_SwitchProperties (devices_index devs deviceName)) propName)
      in if state = PropertyStateOk then Some None
         else if state = PropertyStateAlert then
           Some (Some (ErrorsNew (''unable to set switch property: '' @ name)))
         else waitSwitch deviceName propName name obs)"

fun waitBlob ::
  "string \<Rightarrow> string \<Rightarrow> string \<Rightarrow> (string \<times> Device) list list \<Rightarrow> error option option" where
  "waitBlob deviceName propName name [] = None"
| "waitBlob deviceName propName name (devs # obs) =
     (let state = prop_State (props_index (dev_BlobProperties (devices_index devs deviceName)) propName)
      in if state = PropertyStateOk then Some None
         else if state = PropertyStateAlert then
           Some (Some (ErrorsNew (''unable to set blob property: '' @ name)))
         else waitBlob deviceName propName name obs)"

text \<open>
  The four set calls. The command is sent after the lock is released; a send on a nil
  channel never proceeds. (The channel is bounded: a send on a full channel waits for the
  writer loop to take a command, and then proceeds as here.) The name and value vectors
  have the same length when the commands are built, so \<^verbatim>\<open>textValues[index]\<close> is the
  value paired with the name.
\<close>

definition SetTextValue ::
  "string \<Rightarrow> string \<Rightarrow> string list \<Rightarrow> string list \<Rightarrow> (string \<times> Device) list list
     \<Rightarrow> INDIClient \<Rightarrow> error option option \<times> INDIClient" where
  "SetTextValue deviceName propName textNames textValues obs c =
     (if length textNames \<noteq> length textValues then
        (Some (Some (ErrorsNew ''len(textNames) must be equal to len(textValues)'')), c)
      else
        (case Lock c of
           None \<Rightarrow> (None, c)
         | Some c \<Rightarrow>
             (case findDevice c deviceName of
                Inl err \<Rightarrow> (Some (Some err), Unlock c)
              | Inr device \<Rightarrow>
                  (case dev_TextProperties device propName of
                     None \<Rightarrow> (Some (Some ErrPropertyNotFound), Unlock c)
                   | Some prop \<Rightarrow>
                       if prop_State prop = PropertyStateBusy then
                         (Some (Some ErrPropertyStateBusy), Unlock c)
                       else if prop_Permissions prop = PropertyPermissionReadOnly then
                         (Some (Some ErrPropertyReadOnly), Unlock c)
                       else if list_ex (\<lambda>name. prop_Values prop name = None) textNames then
                         (Some (Some ErrPropertyValueNotFound), Unlock c)
                       else
                         (let prop = prop\<lparr>prop_State := PropertyStateBusy\<rparr>;
                              device = device\<lparr>dev_TextProperties := (dev_TextProperties device)(propName \<mapsto> prop)\<rparr>;
                              c = c\<lparr>devices := AList.update deviceName device (devices c)\<rparr>;
                              cmd = NewTextVector deviceName propName
                                      (map (\<lambda>(name, v). OneText name v) (zip textNames textValues));
                              c = Unlock c
                          in case write_chan c of
                               None \<Rightarrow> (None, c)
                             | Some q \<Rightarrow>
                                 (waitText deviceName propName (prop_Name prop) obs,
                                  c\<lparr>write_chan := Some (q @ [cmd])\<rparr>))))))"

definition SetNumberValue ::
  "string \<Rightarrow> string \<Rightarrow> string list \<Rightarrow> string list \<Rightarrow> (string \<times> Device) list list
     \<Rightarrow> INDIClient \<Rightarrow> error option option \<times> INDIClient" where
  "SetNumberValue deviceName propName numberNames numberValues obs c =
     (if length numberNames \<noteq> length numberValues then
        (Some (Some (ErrorsNew ''len(numberNames) must be equal to len(numberValues)'')), c)
      else
        (case Lock c of
           None \<Rightarrow> (None, c)
         | Some c \<Rightarrow>
             (case findDevice c deviceName of
                Inl err \<Rightarrow> (Some (Some err), Unlock c)
              | Inr device \<Rightarrow>
                  (case dev_NumberProperties device propName of
                     None \<Rightarrow> (Some (Some ErrPropertyNotFound), Unlock c)
                   | Some prop \<Rightarrow>
                       if prop_State prop = PropertyStateBusy then
                         (Some (Some ErrPropertyStateBusy), Unlock c)
                       else if prop_Permissions prop = PropertyPermissionReadOnly then
                         (Some (Some ErrPropertyReadOnly), Unlock c)
                       else if list_ex (\<lambda>name. prop_Values prop name = None) numberNames then
                         (Some (Some ErrPropertyValueNotFound), Unlock c)
                       else
                         (let prop = prop\<lparr>prop_State := PropertyStateBusy\<rparr>;
                              device = device\<lparr>dev_NumberProperties := (dev_NumberProperties device)(propName \<mapsto> prop)\<rparr>;
                              c = c\<lparr>devices := AList.update deviceName device (devices c)\<rparr>;
                              cmd = NewNumberVector deviceName propName
                                      (map (\<lambda>(name, v). OneNumber name v) (zip numberNames numberValues));
                              c = Unlock c
                          in case write_chan c of
                               None \<Rightarrow> (None, c)
                             | Some q \<Rightarrow>
                                 (waitNumber deviceName propName (prop_Name prop) obs,
                                  c\<lparr>write_chan := Some (q @ [cmd])\<rparr>))))))"

text \<open>With an unknown device, \<^verbatim>\<open>SetSwitchValue\<close> returns without releasing the lock.\<close>

definition SetSwitchValue ::
  "string \<Rightarrow> string \<Rightarrow> string list \<Rightarrow> string list \<Rightarrow> (string \<times> Device) list list
     \<Rightarrow> INDIClient \<Rightarrow> error option option \<times> INDIClient" where
  "SetSwitchValue deviceName propName switchNames switchValues obs c =
     (if length switchNames \<noteq> length switchValues then
        (Some (Some (ErrorsNew ''len(switchNames) must be equal to len(switchValues)'')), c)
      else
        (case Lock c of
           None \<Rightarrow> (None, c)
         | Some c \<Rightarrow>
             (case findDevice c deviceName of
                Inl err \<Rightarrow> (Some (Some err), c)
              | Inr device \<Rightarrow>
                  (case dev_SwitchProperties device propName of
                     None \<Rightarrow> (Some (Some ErrPropertyNotFound), Unlock c)
                   | Some prop \<Rightarrow>
                       if prop_State prop = PropertyStateBusy then
                         (Some (Some ErrPropertyStateBusy), Unlock c)
                       else if prop_Permissions prop = PropertyPermissionReadOnly then
                         (Some (Some ErrPropertyReadOnly), Unlock c)
                       else if list_ex (\<lambda>name. prop_Values prop name = None) switchNames then
                         (Some (Some ErrPropertyValueNotFound), Unlock c)
                       else
                         (let prop = prop\<lparr>prop_State := PropertyStateBusy\<rparr>;
                              device = device\<lparr>dev_SwitchProperties := (dev_SwitchProperties device)(propName \<mapsto> prop)\<rparr>;
                              c = c\<lparr>devices := AList.update deviceName device (devices c)\<rparr>;
                              cmd = NewSwitchVector deviceName propName
                                      (map (\<lambda>(name, v). OneSwitch name v) (zip switchNames switchValues));
                              c = Unlock c
                          in case write_chan c of
                               None \<Rightarrow> (None, c)
                             | Some q \<Rightarrow>
                                 (waitSwitch deviceName propName (prop_Name prop) obs,
                                  c\<lparr>write_chan := Some (q @ [cmd])\<rparr>))))))"

definition SetBlobValue ::
  "string \<Rightarrow> string \<Rightarrow> string \<Rightarrow> string \<Rightarrow> string \<Rightarrow> int \<Rightarrow> (string \<times> Device) list list
     \<Rightarrow> INDIClient \<Rightarrow> error option option \<times> INDIClient" where
  "SetBlobValue deviceName propName blobName blobValue blobFormat blobSize obs c =
     (case Lock c of
        None \<Rightarrow> (None, c)
      | Some c \<Rightarrow>
          (case findDevice c deviceName of
             Inl err \<Rightarrow> (Some (Some err), Unlock c)
           | Inr device \<Rightarrow>
               (case dev_BlobProperties device propName of
                  None \<Rightarrow> (Some (Some ErrPropertyNotFound), Unlock c)
                | Some prop \<Rightarrow>
                    if prop_State prop = PropertyStateBusy then
                      (Some (Some ErrPropertyStateBusy), Unlock c)
                    else if prop_Permissions prop = PropertyPermissionReadOnly then
                      (Some (Some ErrPropertyReadOnly), Unlock c)
                    else if prop_Values prop blobName = None then
                      (Some (Some ErrPropertyValueNotFound), Unlock c)
                    else
                      (let prop = prop\<lparr>prop_State := PropertyStateBusy\<rparr>;
                           device = device\<lparr>dev_BlobProperties :=
                                      (dev_BlobProperties device)(propName \<mapsto> prop)\<rparr>;
                           c = c\<lparr>devices := AList.update deviceName device (devices c)\<rparr>;
                           cmd = NewBlobVector deviceName propName
                                   [OneBlob blobName blobValue blobSize blobFormat];
                           c = Unlock c
                       in case write_chan c of
                            None \<Rightarrow> (None, c)
                          | Some q \<Rightarrow>
                              (waitBlob deviceName propName (prop_Name prop) obs,
                               c\<lparr>write_chan := Some (q @ [cmd])\<rparr>)))))"

subsection \<open>Steps of a client\<close>

text \<open>
  What changes the client: the dispatcher handling an inbound message, and the consumer
  calls that write to it. Each of them starts by taking the lock, so none takes place while
  the lock is held. A set call changes the client before it polls, whatever it reads then,
  so its effect is that of the call with no observation.
\<close>

datatype event =
    Inbound env inbound
  | CallSetTextValue string string "string list" "string list"
  | CallSetNumberValue string string "string list" "string list"
  | CallSetSwitchValue string string "string list" "string list"
  | CallSetBlobValue string string string string string int
  | CallGetBlob env string string string
  | CallConnect env
  | CallDisconnect env

fun step :: "event \<Rightarrow> INDIClient \<Rightarrow> INDIClient option" where
  "step (Inbound E i) c = dispatch E i c"
| "step (CallSetTextValue d p ns vs) c =
     (if rwm c then None else Some (snd (SetTextValue d p ns vs [] c)))"
| "step (CallSetNumberValue d p ns vs) c =
     (if rwm c then None else Some (snd (SetNumberValue d p ns vs [] c)))"
| "step (CallSetSwitchValue d p ns vs) c =
     (if rwm c then None else Some (snd (SetSwitchValue d p ns vs [] c)))"
| "step (CallSetBlobValue d p n v f sz) c =
     (if rwm c then None else Some (snd (SetBlobValue d p n v f sz [] c)))"
| "step (CallGetBlob E d p n) c =
     (if rwm c then None else Some (snd (GetBlob E d p n c)))"
| "step (CallConnect E) c = (if rwm c then None else Some (snd (Connect E c)))"
| "step (CallDisconnect E) c = (if rwm c then None else Some (snd (Disconnect E c)))"

fun run :: "event list \<Rightarrow> INDIClient \<Rightarrow> INDIClient option" where
  "run [] c = Some c"
| "run (e # es) c = (case step e c of None \<Rightarrow> None | Some c' \<Rightarrow> run es c')"

subsection \<open>Notions of the specification\<close>

text \<open>The five kinds of property, and the kind-indexed map of a device.\<close>

datatype kind = Text | Switch | Number | Light | Blob

fun props_of :: "kind \<Rightarrow> Device \<Rightarrow> (string \<rightharpoonup> Property)" where
  "props_of Text dev = dev_TextProperties dev"
| "props_of Switch dev = dev_SwitchProperties dev"
| "props_of Number dev = dev_NumberProperties dev"
| "props_of Light dev = dev_LightProperties dev"
| "props_of Blob dev = dev_BlobProperties dev"

text \<open>The properties of one kind that the catalog holds for a device name.\<close>

definition props :: "INDIClient \<Rightarrow> kind \<Rightarrow> string \<Rightarrow> (string \<rightharpoonup> Property)" where
  "props c k d = (case map_of (devices c) d of None \<Rightarrow> Map.empty | Some dev \<Rightarrow> props_of k dev)"

text \<open>The kind and the message of a definition message, of a set message.\<close>

fun def_of :: "inbound \<Rightarrow> (kind \<times> Vector) option" where
  "def_of (DefTextVector item) = Some (Text, item)"
| "def_of (DefSwitchVector item) = Some (Switch, item)"
| "def_of (DefNumberVector item) = Some (Number, item)"
| "def_of (DefLightVector item) = Some (Light, item)"
| "def_of (DefBlobVector item) = Some (Blob, item)"
| "def_of _ = None"

fun set_of :: "inbound \<Rightarrow> (kind \<times> Vector) option" where
  "set_of (SetTextVector item) = Some (Text, item)"
| "set_of (SetSwitchVector item) = Some (Switch, item)"
| "set_of (SetNumberVector item) = Some (Number, item)"
| "set_of (SetLightVector item) = Some (Light, item)"
| "set_of (SetBlobVector item) = Some (Blob, item)"
| "set_of _ = None"

text \<open>
  Whether an event is the handling of a definition message of kind \<open>k\<close> for property
  \<open>p\<close> of device \<open>d\<close>, and the most recent such definition in a sequence of events.
\<close>

fun defined_by :: "kind \<Rightarrow> string \<Rightarrow> string \<Rightarrow> event \<Rightarrow> Vector option" where
  "defined_by k d p (Inbound E i) =
     (case def_of i of
        None \<Rightarrow> None
      | Some (k', item) \<Rightarrow>
          if k' = k \<and> item_Device item = d \<and> item_Name item = p then Some item else None)"
| "defined_by k d p _ = None"

fun last_def :: "kind \<Rightarrow> string \<Rightarrow> string \<Rightarrow> event list \<Rightarrow> Vector option" where
  "last_def k d p [] = None"
| "last_def k d p (e # es) =
     (case last_def k d p es of Some item \<Rightarrow> Some item | None \<Rightarrow> defined_by k d p e)"

text \<open>
  The spec's armed BLOB value: size greater than 0 and a non-empty path; and whether the
  catalog holds an armed value under a device, property and value name.
\<close>

definition armed :: "PropValue \<Rightarrow> bool" where
  "armed v = (val_Size v > 0 \<and> val_Value v \<noteq> [])"

definition blob_armed :: "INDIClient \<Rightarrow> string \<Rightarrow> string \<Rightarrow> string \<Rightarrow> bool" where
  "blob_armed c d p n =
     (case props c Blob d p of
        None \<Rightarrow> False
      | Some prop \<Rightarrow> (case prop_Values prop n of None \<Rightarrow> False | Some v \<Rightarrow> armed v))"

text \<open>
  No two definition messages of a sequence give the same property name of the same device
  two different kinds.
\<close>

definition one_kind :: "inbound list \<Rightarrow> bool" where
  "one_kind ms =
     list_all (\<lambda>i. list_all (\<lambda>j.
        case (def_of i, def_of j) of
          (Some (k, a), Some (k', b)) \<Rightarrow>
            \<not> (item_Device a = item_Device b \<and> item_Name a = item_Name b) \<or> k = k'
        | _ \<Rightarrow> True) ms) ms"

subsection \<open>Relations between catalogs, for the proofs\<close>

text \<open>
  A BLOB value as the sink leaves it: the size is a byte count, and a positive size comes
  with a path.
\<close>

definition good_blob :: "PropValue \<Rightarrow> bool" where
  "good_blob v = (0 \<le> val_Size v \<and> (0 < val_Size v \<longrightarrow> val_Value v \<noteq> []))"

text \<open>
  A property as a definition message makes it: its values are exactly the names of the
  message, each stored under its own name, and a BLOB value has no path and no size.
\<close>

definition fresh_prop :: "kind \<Rightarrow> Vector \<Rightarrow> Property \<Rightarrow> bool" where
  "fresh_prop k item q =
     (dom (prop_Values q) = el_Name ` set (item_Elems item) \<and>
      (\<forall>n v. prop_Values q n = Some v \<longrightarrow>
         val_Name v = n \<and> (k = Blob \<longrightarrow> val_Size v = 0 \<and> val_Value v = [])))"

text \<open>A property after an update that keeps the value names.\<close>

definition same_names :: "kind \<Rightarrow> Property \<Rightarrow> Property \<Rightarrow> bool" where
  "same_names k q q' =
     (dom (prop_Values q') = dom (prop_Values q) \<and>
      (\<forall>n v v'. prop_Values q n = Some v \<longrightarrow> prop_Values q' n = Some v' \<longrightarrow>
         val_Name v' = val_Name v \<and> (k = Blob \<longrightarrow> good_blob v \<longrightarrow> good_blob v')))"

definition vals_rel :: "(string \<rightharpoonup> PropValue) \<Rightarrow> (string \<rightharpoonup> PropValue) \<Rightarrow> bool" where
  "vals_rel m m' =
     (dom m' = dom m \<and>
      (\<forall>n v v'. m n = Some v \<longrightarrow> m' n = Some v' \<longrightarrow>
         val_Name v' = val_Name v \<and> (good_blob v \<longrightarrow> good_blob v')))"

text \<open>The catalog \<open>c'\<close> is \<open>c\<close> with property \<open>p\<close> of kind \<open>k\<close> of device \<open>d\<close> set to \<open>q\<close>.\<close>

definition updates_at ::
  "INDIClient \<Rightarrow> INDIClient \<Rightarrow> kind \<Rightarrow> string \<Rightarrow> string \<Rightarrow> Property \<Rightarrow> bool" where
  "updates_at c c' k d p q =
     (\<forall>k' d'. props c' k' d' =
        (if k' = k \<and> d' = d then (props c k d)(p \<mapsto> q) else props c k' d'))"

definition set_like ::
  "INDIClient \<Rightarrow> INDIClient \<Rightarrow> kind \<Rightarrow> string \<Rightarrow> string \<Rightarrow> bool" where
  "set_like c c' k d p =
     ((\<forall>k' d'. props c' k' d' = props c k' d') \<or>
      (\<exists>q q'. props c k d p = Some q \<and> same_names k q q' \<and> updates_at c c' k d p q'))"

text \<open>
  The property of kind \<open>k\<close> stored under the names of a definition message \<open>item\<close> comes
  from that message.
\<close>

definition from_def :: "kind \<Rightarrow> Vector \<Rightarrow> Property \<Rightarrow> bool" where
  "from_def k item q =
     (dom (prop_Values q) = el_Name ` set (item_Elems item) \<and>
      (\<forall>n v. prop_Values q n = Some v \<longrightarrow> val_Name v = n \<and> (k = Blob \<longrightarrow> good_blob v)))"

subsection \<open>Concrete inputs\<close>

text \<open>
  An outside world for the examples: ASCII white space is trimmed, every file opens,
  the base64 decoder knows the two texts the examples use, no subscriber fails, the dial
  succeeds.
\<close>

definition trim :: "string \<Rightarrow> string" where
  "trim s = rev (dropWhile (\<lambda>ch. ch \<in> set '' \<newline>'') (rev (dropWhile (\<lambda>ch. ch \<in> set '' \<newline>'') s)))"

definition env0 :: env where
  "env0 = \<lparr>TrimSpace = trim, Now = 0, ParseInLocation = (\<lambda>ts. None), RangeSeed = 0,
     OpenFile = (\<lambda>name. True),
     Base64Decode = (\<lambda>text. if text = ''AQIDBAU='' then Some [1, 2, 3, 4, 5]
                             else if text = [] then Some [] else None),
     FanOut = (\<lambda>key. True), Partial = (\<lambda>name text. []), Base = (\<lambda>path. path),
     Dial = None, ConnClose = None\<rparr>"

definition mkElement :: "string \<Rightarrow> string \<Rightarrow> string \<Rightarrow> Element" where
  "mkElement n l v = \<lparr>el_Name = n, el_Label = l, el_Value = v, el_Format = [], el_Min = [],
     el_Max = [], el_Step = [], el_Size = 0\<rparr>"

definition mkVector ::
  "string \<Rightarrow> string \<Rightarrow> PropertyState \<Rightarrow> PropertyPermission \<Rightarrow> Element list \<Rightarrow> Vector" where
  "mkVector d n st pm els = \<lparr>item_Device = d, item_Name = n, item_Label = [],
     item_Group = [], item_State = st, item_Perm = pm, item_Rule = [], item_Timeout = 0,
     item_Timestamp = [], item_Message = [], item_Elems = els\<rparr>"

text \<open>The definition of scenario 1 of the spec, and a BLOB property of a second device.\<close>

definition defConnection :: Vector where
  "defConnection = mkVector ''Telescope Simulator'' ''CONNECTION'' ''Idle'' ''rw''
     [mkElement ''CONNECT'' ''Connect'' ''Off'', mkElement ''DISCONNECT'' ''Disconnect'' ''On'']"

definition defCCD1 :: Vector where
  "defCCD1 = mkVector ''CCD Simulator'' ''CCD1'' ''Idle'' ''ro'' [mkElement ''CCD1'' ''Image'' []]"

text \<open>The set message of scenario 4: the base64 text of the bytes 1 to 5, padded.\<close>

definition setCCD1 :: Vector where
  "setCCD1 = mkVector ''CCD Simulator'' ''CCD1'' ''Ok'' []
     [OneBlob ''CCD1'' '' AQIDBAU= '' 5 ''.bin'']"

definition twoDevices :: INDIClient where
  "twoDevices = process [(env0, DefSwitchVector defConnection), (env0, DefBlobVector defCCD1)]
     (NewINDIClient Map.empty)"

subsection \<open>Notions of the claims about the set calls\<close>

text \<open>The value names that the catalog holds for a property.\<close>

definition value_names :: "INDIClient \<Rightarrow> kind \<Rightarrow> string \<Rightarrow> string \<Rightarrow> string set" where
  "value_names c k d p = (case props c k d p of None \<Rightarrow> {} | Some q \<Rightarrow> dom (prop_Values q))"

text \<open>
  The spec's reasons to reject a set call, apart from vectors of different lengths: the
  device is unknown, the property is unknown, the property is read-only, the property is
  Busy, or one of the value names is not a value of the property.
\<close>

definition rejected :: "INDIClient \<Rightarrow> kind \<Rightarrow> string \<Rightarrow> string \<Rightarrow> string list \<Rightarrow> bool" where
  "rejected c k d p ns =
     (map_of (devices c) d = None \<or> props c k d p = None \<or>
      (case props c k d p of
         None \<Rightarrow> False
       | Some q \<Rightarrow> prop_Permissions q = PropertyPermissionReadOnly \<or>
                   prop_State q = PropertyStateBusy \<or>
                   list_ex (\<lambda>n. prop_Values q n = None) ns))"

text \<open>Whether an error is the error of a reason that holds.\<close>

fun corresponds ::
  "INDIClient \<Rightarrow> kind \<Rightarrow> string \<Rightarrow> string \<Rightarrow> string list \<Rightarrow> bool \<Rightarrow> error \<Rightarrow> bool" where
  "corresponds c k d p ns mismatch ErrDeviceNotFound = (map_of (devices c) d = None)"
| "corresponds c k d p ns mismatch ErrPropertyNotFound =
     (map_of (devices c) d \<noteq> None \<and> props c k d p = None)"
| "corresponds c k d p ns mismatch ErrPropertyStateBusy =
     (case props c k d p of None \<Rightarrow> False | Some q \<Rightarrow> prop_State q = PropertyStateBusy)"
| "corresponds c k d p ns mismatch ErrPropertyReadOnly =
     (case props c k d p of
        None \<Rightarrow> False
      | Some q \<Rightarrow> prop_Permissions q = PropertyPermissionReadOnly)"
| "corresponds c k d p ns mismatch ErrPropertyValueNotFound =
     (case props c k d p of
        None \<Rightarrow> False
      | Some q \<Rightarrow> list_ex (\<lambda>n. prop_Values q n = None) ns)"
| "corresponds c k d p ns mismatch (ErrorsNew msg) = mismatch"
| "corresponds c k d p ns mismatch _ = False"

text \<open>
  The state of a property that one iteration of a polling loop reads from a device map,
  and the first state in a sequence of readings that ends the wait.
\<close>

definition observed :: "kind \<Rightarrow> string \<Rightarrow> string \<Rightarrow> (string \<times> Device) list \<Rightarrow> PropertyState" where
  "observed k d p devs = prop_State (props_index (props_of k (devices_index devs d)) p)"

definition resolution :: "PropertyState list \<Rightarrow> PropertyState option" where
  "resolution states = find (\<lambda>s. s = PropertyStateOk \<or> s = PropertyStateAlert) states"

subsection \<open>More concrete inputs\<close>

text \<open>A catalog in which the BLOB of the CCD is armed (scenario 4 of the spec).\<close>

definition armedCCD :: INDIClient where
  "armedCCD = process [(env0, DefBlobVector defCCD1), (env0, SetBlobVector setCCD1)]
     (NewINDIClient Map.empty)"

text \<open>A BLOB property whose only value has the empty name, and the message that arms it.\<close>

definition defUnnamed :: Vector where
  "defUnnamed = mkVector ''CCD Simulator'' ''CCD2'' ''Idle'' ''ro'' [mkElement [] ''Image'' []]"

definition setUnnamed :: Vector where
  "setUnnamed = mkVector ''CCD Simulator'' ''CCD2'' ''Ok'' [] [OneBlob [] ''AQIDBAU='' 5 ''.bin'']"

definition armedUnnamed :: INDIClient where
  "armedUnnamed = process [(env0, DefBlobVector defUnnamed), (env0, SetBlobVector setUnnamed)]
     (NewINDIClient Map.empty)"

text \<open>
  The set messages of scenarios 2 and 3 of the spec, with a value name that the definition
  does not have.
\<close>

definition setConnection :: "PropertyState \<Rightarrow> Vector" where
  "setConnection st = mkVector ''Telescope Simulator'' ''CONNECTION'' st []
     [OneSwitch ''CONNECT'' ''On'', OneSwitch ''DISCONNECT'' ''Off'', OneSwitch ''PARK'' ''On'']"

text \<open>A connected client that has received the definition of scenario 1.\<close>

definition connected :: INDIClient where
  "connected = handle env0 (DefSwitchVector defConnection)
     (snd (Connect env0 (NewINDIClient Map.empty)))"

section \<open>Properties\<close>

subsection \<open>Association lists and folds\<close>

lemma props_update:
  "props (c\<lparr>devices := AList.update d dev (devices c)\<rparr>) k d' =
     (if d' = d then props_of k dev else props c k d')"
  by (simp add: props_def update_conv')

lemma props_delete:
  "props (c\<lparr>devices := AList.delete d (devices c)\<rparr>) k d' =
     (if d' = d then Map.empty else props c k d')"
  by (simp add: props_def delete_conv')

lemma props_of_findOrCreate: "props_of k (findOrCreateDevice c d) = props c k d"
  by (cases k) (simp_all add: findOrCreateDevice_def findDevice_def props_def split: option.split)

lemma findDevice_Inr: "findDevice c d = Inr dev \<longleftrightarrow> map_of (devices c) d = Some dev"
  by (simp add: findDevice_def split: option.split)

lemma findDevice_Inl: "findDevice c d = Inl e \<longleftrightarrow> map_of (devices c) d = None \<and> e = ErrDeviceNotFound"
  by (auto simp add: findDevice_def split: option.split)

lemma props_found: "map_of (devices c) d = Some dev \<Longrightarrow> props c k d = props_of k dev"
  by (simp add: props_def)

lemma props_of_upd [simp]:
  "props_of k (dev\<lparr>dev_TextProperties := m\<rparr>) = (if k = Text then m else props_of k dev)"
  "props_of k (dev\<lparr>dev_SwitchProperties := m\<rparr>) = (if k = Switch then m else props_of k dev)"
  "props_of k (dev\<lparr>dev_NumberProperties := m\<rparr>) = (if k = Number then m else props_of k dev)"
  "props_of k (dev\<lparr>dev_LightProperties := m\<rparr>) = (if k = Light then m else props_of k dev)"
  "props_of k (dev\<lparr>dev_BlobProperties := m\<rparr>) = (if k = Blob then m else props_of k dev)"
  "props_of k (dev\<lparr>dev_Messages := ms\<rparr>) = props_of k dev"
  by (cases k; simp)+

lemma foldl_def_rel:
  assumes F: "\<And>vals val. F vals val = vals(f val \<mapsto> g val)"
  shows "dom (foldl F m xs) = dom m \<union> f ` set xs"
    and "(\<And>n v. m n = Some v \<Longrightarrow> P n v) \<Longrightarrow> (\<And>x. P (f x) (g x)) \<Longrightarrow>
           foldl F m xs n = Some v \<Longrightarrow> P n v"
proof -
  show "dom (foldl F m xs) = dom m \<union> f ` set xs"
  proof (induction xs arbitrary: m)
    case Nil
    show ?case by simp
  next
    case (Cons x xs)
    define m' where "m' = m(f x \<mapsto> g x)"
    have "F m x = m'" by (simp only: F[of m x] m'_def)
    then have "foldl F m (x # xs) = foldl F m' xs" by simp
    moreover have "dom m' = insert (f x) (dom m)" by (simp add: m'_def)
    ultimately show ?case using Cons.IH[of m'] by simp
  qed
next
  assume g: "\<And>x. P (f x) (g x)"
  assume "\<And>n v. m n = Some v \<Longrightarrow> P n v" and "foldl F m xs n = Some v"
  then show "P n v"
  proof (induction xs arbitrary: m)
    case Nil
    then show ?case by simp
  next
    case (Cons x xs)
    define m' where "m' = m(f x \<mapsto> g x)"
    have "F m x = m'" by (simp only: F[of m x] m'_def)
    then have "foldl F m (x # xs) = foldl F m' xs" by simp
    with Cons.prems(2) have "foldl F m' xs n = Some v" by simp
    moreover have "\<And>n' v'. m' n' = Some v' \<Longrightarrow> P n' v'"
      using Cons.prems(1) g by (auto simp: m'_def split: if_splits)
    ultimately show ?case using Cons.IH[of m'] by blast
  qed
qed

lemma foldl_set_rel:
  assumes F: "\<And>vals val. F vals val =
      (case vals (f val) of None \<Rightarrow> vals | Some v \<Rightarrow> vals(f val \<mapsto> g v val))"
    and "\<And>v x. R v (g v x)" and "\<And>v. R v v" and "\<And>a b c. R a b \<Longrightarrow> R b c \<Longrightarrow> R a c"
  shows "dom (foldl F m xs) = dom m \<and>
         (\<forall>n v v'. m n = Some v \<longrightarrow> foldl F m xs n = Some v' \<longrightarrow> R v v')"
proof (induction xs arbitrary: m)
  case Nil
  then show ?case using assms(3) by auto
next
  case (Cons x xs)
  show ?case
  proof (cases "m (f x)")
    case None
    then have "F m x = m" by (simp add: F[of m x])
    then have "foldl F m (x # xs) = foldl F m xs" by simp
    then show ?thesis using Cons.IH[of m] by simp
  next
    case (Some v0)
    define m' where "m' = m(f x \<mapsto> g v0 x)"
    have "F m x = m'" using Some by (simp add: F[of m x] m'_def)
    then have st: "foldl F m (x # xs) = foldl F m' xs" by simp
    have d: "dom m' = dom m" using Some by (auto simp: m'_def)
    have r: "\<And>n v. m n = Some v \<Longrightarrow> \<exists>w. m' n = Some w \<and> R v w"
      using Some assms(2,3) by (auto simp: m'_def)
    have ih: "dom (foldl F m' xs) = dom m'"
      "\<And>n v v'. m' n = Some v \<Longrightarrow> foldl F m' xs n = Some v' \<Longrightarrow> R v v'"
      using Cons.IH[of m'] by blast+
    show ?thesis
    proof (intro conjI allI impI)
      show "dom (foldl F m (x # xs)) = dom m" using ih(1) d st by simp
    next
      fix n v v'
      assume a: "m n = Some v" and b: "foldl F m (x # xs) n = Some v'"
      from r[OF a] obtain w where w: "m' n = Some w" "R v w" by blast
      from b st have "foldl F m' xs n = Some v'" by simp
      with ih(2) w(1) have "R w v'" by blast
      with w(2) show "R v v'" using assms(4) by blast
    qed
  qed
qed

lemma props_cong: "devices c' = devices c \<Longrightarrow> props c' k d = props c k d"
  by (simp add: props_def)

lemma updates_atI':
  assumes "devices c' = AList.update d dev' (devices c)"
    and "props_of k dev' = (props c k d)(p \<mapsto> P)"
    and "\<And>k'. k' \<noteq> k \<Longrightarrow> props_of k' dev' = props c k' d"
  shows "updates_at c c' k d p P"
  using assms by (simp add: updates_at_def props_def update_conv')

lemma updates_atI:
  assumes "props_of k dev' = (props c k d)(p \<mapsto> P)"
    and "\<And>k'. k' \<noteq> k \<Longrightarrow> props_of k' dev' = props c k' d"
  shows "updates_at c (c\<lparr>devices := AList.update d dev' (devices c)\<rparr>) k d p P"
  using assms by (intro updates_atI') simp_all

lemma fresh_propI:
  assumes F: "\<And>vals val. F vals val = vals(el_Name val \<mapsto> g val)"
    and "prop_Values P = foldl F Map.empty (item_Elems item)"
    and "\<And>x. val_Name (g x) = el_Name x"
    and "\<And>x. k = Blob \<Longrightarrow> val_Size (g x) = 0 \<and> val_Value (g x) = []"
  shows "fresh_prop k item P"
proof -
  have d: "dom (prop_Values P) = el_Name ` set (item_Elems item)"
    using foldl_def_rel(1)[of F el_Name g Map.empty "item_Elems item"] F assms(2) by simp
  have "\<And>n v. prop_Values P n = Some v \<Longrightarrow>
          val_Name v = n \<and> (k = Blob \<longrightarrow> val_Size v = 0 \<and> val_Value v = [])"
  proof -
    fix n v assume a: "prop_Values P n = Some v"
    show "val_Name v = n \<and> (k = Blob \<longrightarrow> val_Size v = 0 \<and> val_Value v = [])"
    proof (rule foldl_def_rel(2)[of F el_Name g Map.empty
          "\<lambda>n v. val_Name v = n \<and> (k = Blob \<longrightarrow> val_Size v = 0 \<and> val_Value v = [])"
          "item_Elems item" n v])
      show "\<And>vals val. F vals val = vals(el_Name val \<mapsto> g val)" by (rule F)
      show "\<And>n v. Map.empty n = Some v \<Longrightarrow>
              val_Name v = n \<and> (k = Blob \<longrightarrow> val_Size v = 0 \<and> val_Value v = [])" by simp
      show "\<And>x. val_Name (g x) = el_Name x \<and> (k = Blob \<longrightarrow> val_Size (g x) = 0 \<and> val_Value (g x) = [])"
        using assms(3,4) by blast
      show "foldl F Map.empty (item_Elems item) n = Some v" using a assms(2) by simp
    qed
  qed
  with d show ?thesis unfolding fresh_prop_def by blast
qed

lemma defTextVector_props:
  "\<exists>P. fresh_prop Text item P \<and>
       (\<forall>c. updates_at c (defTextVector E item c) Text (item_Device item) (item_Name item) P)"
proof -
  define g where "g = (\<lambda>val::Element. TextValue (el_Label val) (el_Name val) (TrimSpace E (el_Value val)))"
  define F where "F = (\<lambda>vals (val::Element). vals(el_Name val \<mapsto> g val))"
  define P0 where "P0 = \<lparr>prop_Name = item_Name item, prop_Label = item_Label item,
      prop_Group = item_Group item, prop_Permissions = item_Perm item,
      prop_Rule = [], prop_State = item_State item, prop_Timeout = 0,
      prop_Values = foldl F Map.empty (item_Elems item),
      prop_LastUpdated = Now E, prop_Messages = []\<rparr>"
  define P where "P = (if length (item_Message item) > 0
      then P0\<lparr>prop_Messages := prop_Messages P0 @
             [\<lparr>mj_Message = item_Message item, mj_Timestamp = Now E\<rparr>]\<rparr>
      else P0)"
  have c': "defTextVector E item c = c\<lparr>devices := AList.update (item_Device item)
     ((findOrCreateDevice c (item_Device item))\<lparr>dev_TextProperties :=
        (dev_TextProperties (findOrCreateDevice c (item_Device item)))(item_Name item \<mapsto> P)\<rparr>)
     (devices c)\<rparr>" for c
    by (simp add: defTextVector_def Let_def P_def P0_def F_def g_def)
  have v: "prop_Values P = foldl F Map.empty (item_Elems item)"
    by (simp add: P_def P0_def)
  have "fresh_prop Text item P"
    by (rule fresh_propI[where F = F and g = g]) (simp_all add: F_def v g_def TextValue_def)
  moreover have "updates_at c (defTextVector E item c) Text (item_Device item) (item_Name item) P" for c
    unfolding c'
    by (rule updates_atI) (simp_all add: props_of_findOrCreate[symmetric])
  ultimately show ?thesis by blast
qed

lemma defSwitchVector_props:
  "\<exists>P. fresh_prop Switch item P \<and>
       (\<forall>c. updates_at c (defSwitchVector E item c) Switch (item_Device item) (item_Name item) P)"
proof -
  define g where "g = (\<lambda>val::Element. SwitchValue (el_Label val) (el_Name val) (TrimSpace E (el_Value val)))"
  define F where "F = (\<lambda>vals (val::Element). vals(el_Name val \<mapsto> g val))"
  define P0 where "P0 = \<lparr>prop_Name = item_Name item, prop_Label = item_Label item,
      prop_Group = item_Group item, prop_Permissions = item_Perm item,
      prop_Rule = item_Rule item, prop_State = item_State item, prop_Timeout = 0,
      prop_Values = foldl F Map.empty (item_Elems item),
      prop_LastUpdated = Now E, prop_Messages = []\<rparr>"
  define P where "P = (if length (item_Message item) > 0
      then P0\<lparr>prop_Messages := prop_Messages P0 @
             [\<lparr>mj_Message = item_Message item, mj_Timestamp = Now E\<rparr>]\<rparr>
      else P0)"
  have c': "defSwitchVector E item c = c\<lparr>devices := AList.update (item_Device item)
     ((findOrCreateDevice c (item_Device item))\<lparr>dev_SwitchProperties :=
        (dev_SwitchProperties (findOrCreateDevice c (item_Device item)))(item_Name item \<mapsto> P)\<rparr>)
     (devices c)\<rparr>" for c
    by (simp add: defSwitchVector_def Let_def P_def P0_def F_def g_def)
  have v: "prop_Values P = foldl F Map.empty (item_Elems item)"
    by (simp add: P_def P0_def)
  have "fresh_prop Switch item P"
    by (rule fresh_propI[where F = F and g = g]) (simp_all add: F_def v g_def SwitchValue_def)
  moreover have "updates_at c (defSwitchVector E item c) Switch (item_Device item) (item_Name item) P" for c
    unfolding c'
    by (rule updates_atI) (simp_all add: props_of_findOrCreate[symmetric])
  ultimately show ?thesis by blast
qed

lemma defNumberVector_props:
  "\<exists>P. fresh_prop Number item P \<and>
       (\<forall>c. updates_at c (defNumberVector E item c) Number (item_Device item) (item_Name item) P)"
proof -
  define g where "g = (\<lambda>val::Element. NumberValue (el_Label val) (el_Name val) (TrimSpace E (el_Value val))
        (el_Format val) (el_Min val) (el_Max val) (el_Step val))"
  define F where "F = (\<lambda>vals (val::Element). vals(el_Name val \<mapsto> g val))"
  define P0 where "P0 = \<lparr>prop_Name = item_Name item, prop_Label = item_Label item,
      prop_Group = item_Group item, prop_Permissions = item_Perm item,
      prop_Rule = [], prop_State = item_State item, prop_Timeout = 0,
      prop_Values = foldl F Map.empty (item_Elems item),
      prop_LastUpdated = Now E, prop_Messages = []\<rparr>"
  define P where "P = (if length (item_Message item) > 0
      then P0\<lparr>prop_Messages := prop_Messages P0 @
             [\<lparr>mj_Message = item_Message item, mj_Timestamp = Now E\<rparr>]\<rparr>
      else P0)"
  have c': "defNumberVector E item c = c\<lparr>devices := AList.update (item_Device item)
     ((findOrCreateDevice c (item_Device item))\<lparr>dev_NumberProperties :=
        (dev_NumberProperties (findOrCreateDevice c (item_Device item)))(item_Name item \<mapsto> P)\<rparr>)
     (devices c)\<rparr>" for c
    by (simp add: defNumberVector_def Let_def P_def P0_def F_def g_def)
  have v: "prop_Values P = foldl F Map.empty (item_Elems item)"
    by (simp add: P_def P0_def)
  have "fresh_prop Number item P"
    by (rule fresh_propI[where F = F and g = g]) (simp_all add: F_def v g_def NumberValue_def)
  moreover have "updates_at c (defNumberVector E item c) Number (item_Device item) (item_Name item) P" for c
    unfolding c'
    by (rule updates_atI) (simp_all add: props_of_findOrCreate[symmetric])
  ultimately show ?thesis by blast
qed

lemma defLightVector_props:
  "\<exists>P. fresh_prop Light item P \<and>
       (\<forall>c. updates_at c (defLightVector E item c) Light (item_Device item) (item_Name item) P)"
proof -
  define g where "g = (\<lambda>val::Element. LightValue (el_Label val) (el_Name val) (TrimSpace E (el_Value val)))"
  define F where "F = (\<lambda>vals (val::Element). vals(el_Name val \<mapsto> g val))"
  define P0 where "P0 = \<lparr>prop_Name = item_Name item, prop_Label = item_Label item,
      prop_Group = item_Group item, prop_Permissions = [],
      prop_Rule = [], prop_State = item_State item, prop_Timeout = 0,
      prop_Values = foldl F Map.empty (item_Elems item),
      prop_LastUpdated = Now E, prop_Messages = []\<rparr>"
  define P where "P = (if length (item_Message item) > 0
      then P0\<lparr>prop_Messages := prop_Messages P0 @
             [\<lparr>mj_Message = item_Message item, mj_Timestamp = Now E\<rparr>]\<rparr>
      else P0)"
  have c': "defLightVector E item c = c\<lparr>devices := AList.update (item_Device item)
     ((findOrCreateDevice c (item_Device item))\<lparr>dev_LightProperties :=
        (dev_LightProperties (findOrCreateDevice c (item_Device item)))(item_Name item \<mapsto> P)\<rparr>)
     (devices c)\<rparr>" for c
    by (simp add: defLightVector_def Let_def P_def P0_def F_def g_def)
  have v: "prop_Values P = foldl F Map.empty (item_Elems item)"
    by (simp add: P_def P0_def)
  have "fresh_prop Light item P"
    by (rule fresh_propI[where F = F and g = g]) (simp_all add: F_def v g_def LightValue_def)
  moreover have "updates_at c (defLightVector E item c) Light (item_Device item) (item_Name item) P" for c
    unfolding c'
    by (rule updates_atI) (simp_all add: props_of_findOrCreate[symmetric])
  ultimately show ?thesis by blast
qed

lemma defBlobVector_props:
  "\<exists>P. fresh_prop Blob item P \<and>
       (\<forall>c. updates_at c (defBlobVector E item c) Blob (item_Device item) (item_Name item) P)"
proof -
  define g where "g = (\<lambda>val::Element. BlobValue (el_Label val) (el_Name val))"
  define F where "F = (\<lambda>vals (val::Element). vals(el_Name val \<mapsto> g val))"
  define P0 where "P0 = \<lparr>prop_Name = item_Name item, prop_Label = item_Label item,
      prop_Group = item_Group item, prop_Permissions = [],
      prop_Rule = [], prop_State = item_State item, prop_Timeout = 0,
      prop_Values = foldl F Map.empty (item_Elems item),
      prop_LastUpdated = Now E, prop_Messages = []\<rparr>"
  define P where "P = (if length (item_Message item) > 0
      then P0\<lparr>prop_Messages := prop_Messages P0 @
             [\<lparr>mj_Message = item_Message item, mj_Timestamp = Now E\<rparr>]\<rparr>
      else P0)"
  have c': "defBlobVector E item c = c\<lparr>devices := AList.update (item_Device item)
     ((findOrCreateDevice c (item_Device item))\<lparr>dev_BlobProperties :=
        (dev_BlobProperties (findOrCreateDevice c (item_Device item)))(item_Name item \<mapsto> P)\<rparr>)
     (devices c)\<rparr>" for c
    by (simp add: defBlobVector_def Let_def P_def P0_def F_def g_def)
  have v: "prop_Values P = foldl F Map.empty (item_Elems item)"
    by (simp add: P_def P0_def)
  have "fresh_prop Blob item P"
    by (rule fresh_propI[where F = F and g = g]) (simp_all add: F_def v g_def BlobValue_def)
  moreover have "updates_at c (defBlobVector E item c) Blob (item_Device item) (item_Name item) P" for c
    unfolding c'
    by (rule updates_atI) (simp_all add: props_of_findOrCreate[symmetric])
  ultimately show ?thesis by blast
qed

lemma same_namesI:
  assumes F: "\<And>vals val. F vals val =
      (case vals (f val) of None \<Rightarrow> vals | Some v \<Rightarrow> vals(f val \<mapsto> g v val))"
    and v: "prop_Values P = foldl F (prop_Values prop) elems"
    and n: "\<And>v x. val_Name (g v x) = val_Name v"
    and k: "k \<noteq> Blob"
  shows "same_names k prop P"
proof -
  have "dom (foldl F (prop_Values prop) elems) = dom (prop_Values prop) \<and>
         (\<forall>n v v'. prop_Values prop n = Some v \<longrightarrow>
            foldl F (prop_Values prop) elems n = Some v' \<longrightarrow> val_Name v' = val_Name v)"
    by (rule foldl_set_rel[where f = f and g = g]) (simp_all add: F n)
  then show ?thesis using k unfolding same_names_def v by blast
qed

lemma same_names_refl: "same_names k prop prop"
  by (simp add: same_names_def)

lemma same_names_values: "prop_Values P = prop_Values prop \<Longrightarrow> same_names k prop P"
  by (simp add: same_names_def)

lemma setTextVector_props:
  "set_like c (setTextVector E item c) Text (item_Device item) (item_Name item)"
proof (cases "findDevice c (item_Device item)")
  case (Inl e)
  then show ?thesis by (simp add: setTextVector_def set_like_def)
next
  case (Inr dev)
  then have dv: "map_of (devices c) (item_Device item) = Some dev" by (simp add: findDevice_Inr)
  show ?thesis
  proof (cases "dev_TextProperties dev (item_Name item)")
    case None
    then show ?thesis using Inr by (simp add: setTextVector_def set_like_def)
  next
    case (Some p0)
    define g where "g = (\<lambda>(v::PropValue) (val::Element). v\<lparr>val_Value := TrimSpace E (el_Value val)\<rparr>)"
    define F where "F = (\<lambda>vals (val::Element). case vals (el_Name val) of None \<Rightarrow> vals
                          | Some v \<Rightarrow> vals(el_Name val \<mapsto> g v val))"
    define P0 where "P0 = p0\<lparr>prop_State := item_State item, prop_Timeout := item_Timeout item,
        prop_LastUpdated := lastUpdated E (item_Timestamp item),
        prop_Values := foldl F (prop_Values p0) (item_Elems item)\<rparr>"
    define P where "P = (if length (item_Message item) > 0
        then P0\<lparr>prop_Messages := prop_Messages P0 @
               [\<lparr>mj_Message = item_Message item, mj_Timestamp = Now E\<rparr>]\<rparr>
        else P0)"
    have c': "setTextVector E item c = c\<lparr>devices := AList.update (item_Device item)
       (dev\<lparr>dev_TextProperties := (dev_TextProperties dev)(item_Name item \<mapsto> P)\<rparr>) (devices c)\<rparr>"
      using Inr Some unfolding P_def P0_def F_def g_def by (simp add: setTextVector_def Let_def)
    have v: "prop_Values P = foldl F (prop_Values p0) (item_Elems item)"
      by (simp add: P_def P0_def)
    have sn: "same_names Text p0 P"
      by (rule same_namesI[where F = F and f = el_Name and g = g, OF _ v])
         (simp_all add: F_def g_def)
    have pr: "props c Text (item_Device item) (item_Name item) = Some p0"
      using dv Some by (simp add: props_found)
    have "updates_at c (setTextVector E item c) Text (item_Device item) (item_Name item) P"
      unfolding c' by (rule updates_atI) (simp_all add: props_found[OF dv])
    with sn pr show ?thesis unfolding set_like_def by blast
  qed
qed

lemma setSwitchVector_props:
  "set_like c (setSwitchVector E item c) Switch (item_Device item) (item_Name item)"
proof (cases "findDevice c (item_Device item)")
  case (Inl e)
  then show ?thesis by (simp add: setSwitchVector_def set_like_def)
next
  case (Inr dev)
  then have dv: "map_of (devices c) (item_Device item) = Some dev" by (simp add: findDevice_Inr)
  show ?thesis
  proof (cases "dev_SwitchProperties dev (item_Name item)")
    case None
    then show ?thesis using Inr by (simp add: setSwitchVector_def set_like_def)
  next
    case (Some p0)
    define g where "g = (\<lambda>(v::PropValue) (val::Element). v\<lparr>val_Value := TrimSpace E (el_Value val)\<rparr>)"
    define F where "F = (\<lambda>vals (val::Element). case vals (el_Name val) of None \<Rightarrow> vals
                          | Some v \<Rightarrow> vals(el_Name val \<mapsto> g v val))"
    define P0 where "P0 = p0\<lparr>prop_State := item_State item, prop_Timeout := item_Timeout item,
        prop_LastUpdated := lastUpdated E (item_Timestamp item),
        prop_Values := foldl F (prop_Values p0) (item_Elems item)\<rparr>"
    define P where "P = (if length (item_Message item) > 0
        then P0\<lparr>prop_Messages := prop_Messages P0 @
               [\<lparr>mj_Message = item_Message item, mj_Timestamp = Now E\<rparr>]\<rparr>
        else P0)"
    have c': "setSwitchVector E item c = c\<lparr>devices := AList.update (item_Device item)
       (dev\<lparr>dev_SwitchProperties := (dev_SwitchProperties dev)(item_Name item \<mapsto> P)\<rparr>) (devices c)\<rparr>"
      using Inr Some unfolding P_def P0_def F_def g_def by (simp add: setSwitchVector_def Let_def)
    have v: "prop_Values P = foldl F (prop_Values p0) (item_Elems item)"
      by (simp add: P_def P0_def)
    have sn: "same_names Switch p0 P"
      by (rule same_namesI[where F = F and f = el_Name and g = g, OF _ v])
         (simp_all add: F_def g_def)
    have pr: "props c Switch (item_Device item) (item_Name item) = Some p0"
      using dv Some by (simp add: props_found)
    have "updates_at c (setSwitchVector E item c) Switch (item_Device item) (item_Name item) P"
      unfolding c' by (rule updates_atI) (simp_all add: props_found[OF dv])
    with sn pr show ?thesis unfolding set_like_def by blast
  qed
qed

lemma setNumberVector_props:
  "set_like c (setNumberVector E item c) Number (item_Device item) (item_Name item)"
proof (cases "findDevice c (item_Device item)")
  case (Inl e)
  then show ?thesis by (simp add: setNumberVector_def set_like_def)
next
  case (Inr dev)
  then have dv: "map_of (devices c) (item_Device item) = Some dev" by (simp add: findDevice_Inr)
  show ?thesis
  proof (cases "dev_NumberProperties dev (item_Name item)")
    case None
    then show ?thesis using Inr by (simp add: setNumberVector_def set_like_def)
  next
    case (Some p0)
    define g where "g = (\<lambda>(v::PropValue) (val::Element). v\<lparr>val_Value := TrimSpace E (el_Value val)\<rparr>)"
    define F where "F = (\<lambda>vals (val::Element). case vals (el_Name val) of None \<Rightarrow> vals
                          | Some v \<Rightarrow> vals(el_Name val \<mapsto> g v val))"
    define P0 where "P0 = p0\<lparr>prop_State := item_State item, prop_Timeout := item_Timeout item,
        prop_LastUpdated := lastUpdated E (item_Timestamp item),
        prop_Values := foldl F (prop_Values p0) (item_Elems item)\<rparr>"
    define P where "P = (if length (item_Message item) > 0
        then P0\<lparr>prop_Messages := prop_Messages P0 @
               [\<lparr>mj_Message = item_Message item, mj_Timestamp = Now E\<rparr>]\<rparr>
        else P0)"
    have c': "setNumberVector E item c = c\<lparr>devices := AList.update (item_Device item)
       (dev\<lparr>dev_NumberProperties := (dev_NumberProperties dev)(item_Name item \<mapsto> P)\<rparr>) (devices c)\<rparr>"
      using Inr Some unfolding P_def P0_def F_def g_def by (simp add: setNumberVector_def Let_def)
    have v: "prop_Values P = foldl F (prop_Values p0) (item_Elems item)"
      by (simp add: P_def P0_def)
    have sn: "same_names Number p0 P"
      by (rule same_namesI[where F = F and f = el_Name and g = g, OF _ v])
         (simp_all add: F_def g_def)
    have pr: "props c Number (item_Device item) (item_Name item) = Some p0"
      using dv Some by (simp add: props_found)
    have "updates_at c (setNumberVector E item c) Number (item_Device item) (item_Name item) P"
      unfolding c' by (rule updates_atI) (simp_all add: props_found[OF dv])
    with sn pr show ?thesis unfolding set_like_def by blast
  qed
qed

lemma setLightVector_props:
  "set_like c (setLightVector E item c) Light (item_Device item) (item_Name item)"
proof (cases "findDevice c (item_Device item)")
  case (Inl e)
  then show ?thesis by (simp add: setLightVector_def set_like_def)
next
  case (Inr dev)
  then have dv: "map_of (devices c) (item_Device item) = Some dev" by (simp add: findDevice_Inr)
  show ?thesis
  proof (cases "dev_LightProperties dev (item_Name item)")
    case None
    then show ?thesis using Inr by (simp add: setLightVector_def set_like_def)
  next
    case (Some p0)
    define g where "g = (\<lambda>(v::PropValue) (val::Element). v\<lparr>val_Value := TrimSpace E (el_Value val)\<rparr>)"
    define F where "F = (\<lambda>vals (val::Element). case vals (el_Name val) of None \<Rightarrow> vals
                          | Some v \<Rightarrow> vals(el_Name val \<mapsto> g v val))"
    define P0 where "P0 = p0\<lparr>prop_State := item_State item,
        prop_LastUpdated := lastUpdated E (item_Timestamp item),
        prop_Values := foldl F (prop_Values p0) (item_Elems item)\<rparr>"
    define P where "P = (if length (item_Message item) > 0
        then P0\<lparr>prop_Messages := prop_Messages P0 @
               [\<lparr>mj_Message = item_Message item, mj_Timestamp = Now E\<rparr>]\<rparr>
        else P0)"
    have c': "setLightVector E item c = c\<lparr>devices := AList.update (item_Device item)
       (dev\<lparr>dev_LightProperties := (dev_LightProperties dev)(item_Name item \<mapsto> P)\<rparr>) (devices c)\<rparr>"
      using Inr Some unfolding P_def P0_def F_def g_def by (simp add: setLightVector_def Let_def)
    have v: "prop_Values P = foldl F (prop_Values p0) (item_Elems item)"
      by (simp add: P_def P0_def)
    have sn: "same_names Light p0 P"
      by (rule same_namesI[where F = F and f = el_Name and g = g, OF _ v])
         (simp_all add: F_def g_def)
    have pr: "props c Light (item_Device item) (item_Name item) = Some p0"
      using dv Some by (simp add: props_found)
    have "updates_at c (setLightVector E item c) Light (item_Device item) (item_Name item) P"
      unfolding c' by (rule updates_atI) (simp_all add: props_found[OF dv])
    with sn pr show ?thesis unfolding set_like_def by blast
  qed
qed

lemma vals_rel_refl: "vals_rel m m"
  by (simp add: vals_rel_def)

lemma vals_rel_trans:
  assumes "vals_rel a b" and "vals_rel b c"
  shows "vals_rel a c"
proof -
  have d: "dom b = dom a" "dom c = dom b" using assms by (simp_all add: vals_rel_def)
  have "val_Name v'' = val_Name v \<and> (good_blob v \<longrightarrow> good_blob v'')"
    if a: "a n = Some v" and c: "c n = Some v''" for n v v''
  proof -
    from a d(1) obtain v' where b: "b n = Some v'" by (metis domD domI)
    from assms(1) a b have "val_Name v' = val_Name v \<and> (good_blob v \<longrightarrow> good_blob v')"
      unfolding vals_rel_def by blast
    moreover from assms(2) b c have "val_Name v'' = val_Name v' \<and> (good_blob v' \<longrightarrow> good_blob v'')"
      unfolding vals_rel_def by blast
    ultimately show ?thesis by simp
  qed
  with d show ?thesis unfolding vals_rel_def by blast
qed

lemma vals_rel_upd:
  assumes "m n = Some v" and "val_Name v' = val_Name v" and "good_blob v'"
  shows "vals_rel m (m(n \<mapsto> v'))"
  using assms by (auto simp: vals_rel_def)

lemma blobFileName_nonempty: "blobFileName d p n f \<noteq> []"
  by (simp add: blobFileName_def)

lemma setBlob_one_rel: "vals_rel (fst st) (fst (setBlob_one E item st val))"
proof (cases st)
  case (Pair vals files)
  show ?thesis
  proof (cases "vals (el_Name val)")
    case None
    then show ?thesis using Pair by (simp add: setBlob_one_def vals_rel_refl)
  next
    case (Some v)
    have u: "vals_rel vals (vals(el_Name val \<mapsto> v\<lparr>val_Value := blobFileName a b c d, val_Size := int (length w)\<rparr>))"
      for a b c d and w :: "byte list"
      by (rule vals_rel_upd[where v = v]) (simp_all add: Some good_blob_def blobFileName_nonempty)
    show ?thesis using Pair Some u
      by (simp add: setBlob_one_def Let_def vals_rel_refl split: prod.split option.split)
  qed
qed

lemma setBlob_fold_rel: "vals_rel (fst st) (fst (foldl (setBlob_one E item) st xs))"
proof (induction xs arbitrary: st)
  case Nil
  show ?case by (simp add: vals_rel_refl)
next
  case (Cons x xs)
  have "vals_rel (fst st) (fst (setBlob_one E item st x))" by (rule setBlob_one_rel)
  moreover have "vals_rel (fst (setBlob_one E item st x))
      (fst (foldl (setBlob_one E item) (setBlob_one E item st x) xs))" by (rule Cons.IH)
  ultimately show ?case using vals_rel_trans by simp
qed

lemma same_names_vals_rel: "vals_rel (prop_Values prop) (prop_Values P) \<Longrightarrow> same_names k prop P"
  unfolding vals_rel_def same_names_def by blast

lemma setBlobVector_props:
  "set_like c (setBlobVector E item c) Blob (item_Device item) (item_Name item)"
proof (cases "findDevice c (item_Device item)")
  case (Inl e)
  then show ?thesis by (simp add: setBlobVector_def set_like_def)
next
  case (Inr dev)
  then have dv: "map_of (devices c) (item_Device item) = Some dev" by (simp add: findDevice_Inr)
  show ?thesis
  proof (cases "dev_BlobProperties dev (item_Name item)")
    case None
    then show ?thesis using Inr by (simp add: setBlobVector_def set_like_def)
  next
    case (Some p0)
    define r where "r = foldl (setBlob_one E item) (prop_Values p0, fs c) (item_Elems item)"
    define P0 where "P0 = p0\<lparr>prop_State := item_State item, prop_Timeout := item_Timeout item,
        prop_LastUpdated := lastUpdated E (item_Timestamp item),
        prop_Values := fst r\<rparr>"
    define P where "P = (if length (item_Message item) > 0
        then P0\<lparr>prop_Messages := prop_Messages P0 @
               [\<lparr>mj_Message = item_Message item, mj_Timestamp = Now E\<rparr>]\<rparr>
        else P0)"
    have c': "devices (setBlobVector E item c) = AList.update (item_Device item)
       (dev\<lparr>dev_BlobProperties := (dev_BlobProperties dev)(item_Name item \<mapsto> P)\<rparr>) (devices c)"
      using Inr Some unfolding P_def P0_def r_def
      by (simp add: setBlobVector_def Let_def split_beta)
    have v: "prop_Values P = fst r"
      by (simp add: P_def P0_def)
    have "vals_rel (prop_Values p0) (prop_Values P)"
      unfolding v r_def using setBlob_fold_rel[of "(prop_Values p0, fs c)" E item "item_Elems item"]
      by simp
    then have sn: "same_names Blob p0 P" by (rule same_names_vals_rel)
    have pr: "props c Blob (item_Device item) (item_Name item) = Some p0"
      using dv Some by (simp add: props_found)
    have "updates_at c (setBlobVector E item c) Blob (item_Device item) (item_Name item) P"
      by (rule updates_atI'[OF c']) (simp_all add: props_found[OF dv])
    with sn pr show ?thesis unfolding set_like_def by blast
  qed
qed

lemma message_props: "props (message E item c) k d = props c k d"
proof (cases "findDevice c (msg_Device item)")
  case (Inl e)
  then show ?thesis by (simp add: message_def)
next
  case (Inr dev)
  then have dv: "map_of (devices c) (msg_Device item) = Some dev" by (simp add: findDevice_Inr)
  show ?thesis using Inr
    by (simp add: message_def Let_def props_update props_found[OF dv])
qed

lemma delProperty_props:
  "props (delProperty E item c) k d p = None \<or>
   props (delProperty E item c) k d p = props c k d p"
proof (cases "length (del_Device item) = 0")
  case True
  show ?thesis
  proof (cases "devices c")
    case Nil
    then show ?thesis using True by (simp add: delProperty_def)
  next
    case (Cons x xs)
    then have "delProperty E item c =
        c\<lparr>devices := AList.delete (fst (devices c ! (RangeSeed E mod length (devices c)))) (devices c)\<rparr>"
      using True by (simp add: delProperty_def Let_def)
    then show ?thesis by (simp add: props_delete)
  qed
next
  case False
  show ?thesis
  proof (cases "length (del_Name item) = 0")
    case True
    then have "delProperty E item c = c\<lparr>devices := AList.delete (del_Device item) (devices c)\<rparr>"
      using False by (simp add: delProperty_def)
    then show ?thesis by (simp add: props_delete)
  next
    case n: False
    define dev0 where "dev0 = findOrCreateDevice c (del_Device item)"
    have p0: "props_of k dev0 = props c k (del_Device item)"
      by (simp add: dev0_def props_of_findOrCreate)
    have c': "delProperty E item c = c\<lparr>devices := AList.update (del_Device item)
        (dev0\<lparr>dev_TextProperties := (dev_TextProperties dev0)(del_Name item := None),
              dev_NumberProperties := (dev_NumberProperties dev0)(del_Name item := None),
              dev_SwitchProperties := (dev_SwitchProperties dev0)(del_Name item := None),
              dev_LightProperties := (dev_LightProperties dev0)(del_Name item := None),
              dev_BlobProperties := (dev_BlobProperties dev0)(del_Name item := None)\<rparr>)
        (devices c)\<rparr>"
      using False n by (simp add: delProperty_def Let_def dev0_def)
    have "props (delProperty E item c) k d =
            (if d = del_Device item then (props c k d)(del_Name item := None) else props c k d)"
      unfolding c' props_update using p0 by (cases k) simp_all
    then show ?thesis by simp
  qed
qed

lemma set_like_busy:
  assumes dv: "map_of (devices c) d = Some dev" and pr: "props_of k dev p = Some q"
    and c': "devices c' = AList.update d dev' (devices c)"
    and k: "props_of k dev' = (props_of k dev)(p \<mapsto> q\<lparr>prop_State := st\<rparr>)"
    and o: "\<And>k'. k' \<noteq> k \<Longrightarrow> props_of k' dev' = props_of k' dev"
  shows "set_like c c' k d p"
proof -
  have "same_names k q (q\<lparr>prop_State := st\<rparr>)" by (simp add: same_names_def)
  moreover have "props c k d p = Some q" using dv pr by (simp add: props_found)
  moreover have "updates_at c c' k d p (q\<lparr>prop_State := st\<rparr>)"
    by (rule updates_atI'[OF c']) (simp_all add: props_found[OF dv] k o)
  ultimately show ?thesis unfolding set_like_def by blast
qed

lemma set_like_same: "devices c' = devices c \<Longrightarrow> set_like c c' k d p"
  by (simp add: set_like_def props_def)

lemma SetTextValue_devices:
  "devices (snd (SetTextValue d p ns vs ob c)) = devices c \<or>
   (\<exists>dev q. map_of (devices c) d = Some dev \<and> dev_TextProperties dev p = Some q \<and>
      devices (snd (SetTextValue d p ns vs ob c)) =
        AList.update d (dev\<lparr>dev_TextProperties := (dev_TextProperties dev)(p \<mapsto> q\<lparr>prop_State := PropertyStateBusy\<rparr>)\<rparr>)
          (devices c))"
  by (simp add: SetTextValue_def Lock_def Unlock_def Let_def findDevice_def
      split: option.split)

lemma SetTextValue_props: "set_like c (snd (SetTextValue d p ns vs ob c)) Text d p"
  using SetTextValue_devices[of d p ns vs ob c]
proof (elim disjE exE conjE)
  assume "devices (snd (SetTextValue d p ns vs ob c)) = devices c"
  then show ?thesis by (rule set_like_same)
next
  fix dev q
  assume dv: "map_of (devices c) d = Some dev" and pr: "dev_TextProperties dev p = Some q"
    and c': "devices (snd (SetTextValue d p ns vs ob c)) =
        AList.update d (dev\<lparr>dev_TextProperties := (dev_TextProperties dev)(p \<mapsto> q\<lparr>prop_State := PropertyStateBusy\<rparr>)\<rparr>)
          (devices c)"
  show ?thesis
    by (rule set_like_busy[OF dv _ c', where q = q and st = PropertyStateBusy])
       (simp_all add: pr)
qed

lemma SetNumberValue_devices:
  "devices (snd (SetNumberValue d p ns vs ob c)) = devices c \<or>
   (\<exists>dev q. map_of (devices c) d = Some dev \<and> dev_NumberProperties dev p = Some q \<and>
      devices (snd (SetNumberValue d p ns vs ob c)) =
        AList.update d (dev\<lparr>dev_NumberProperties := (dev_NumberProperties dev)(p \<mapsto> q\<lparr>prop_State := PropertyStateBusy\<rparr>)\<rparr>)
          (devices c))"
  by (simp add: SetNumberValue_def Lock_def Unlock_def Let_def findDevice_def
      split: option.split)

lemma SetNumberValue_props: "set_like c (snd (SetNumberValue d p ns vs ob c)) Number d p"
  using SetNumberValue_devices[of d p ns vs ob c]
proof (elim disjE exE conjE)
  assume "devices (snd (SetNumberValue d p ns vs ob c)) = devices c"
  then show ?thesis by (rule set_like_same)
next
  fix dev q
  assume dv: "map_of (devices c) d = Some dev" and pr: "dev_NumberProperties dev p = Some q"
    and c': "devices (snd (SetNumberValue d p ns vs ob c)) =
        AList.update d (dev\<lparr>dev_NumberProperties := (dev_NumberProperties dev)(p \<mapsto> q\<lparr>prop_State := PropertyStateBusy\<rparr>)\<rparr>)
          (devices c)"
  show ?thesis
    by (rule set_like_busy[OF dv _ c', where q = q and st = PropertyStateBusy])
       (simp_all add: pr)
qed

lemma SetSwitchValue_devices:
  "devices (snd (SetSwitchValue d p ns vs ob c)) = devices c \<or>
   (\<exists>dev q. map_of (devices c) d = Some dev \<and> dev_SwitchProperties dev p = Some q \<and>
      devices (snd (SetSwitchValue d p ns vs ob c)) =
        AList.update d (dev\<lparr>dev_SwitchProperties := (dev_SwitchProperties dev)(p \<mapsto> q\<lparr>prop_State := PropertyStateBusy\<rparr>)\<rparr>)
          (devices c))"
  by (simp add: SetSwitchValue_def Lock_def Unlock_def Let_def findDevice_def
      split: option.split)

lemma SetSwitchValue_props: "set_like c (snd (SetSwitchValue d p ns vs ob c)) Switch d p"
  using SetSwitchValue_devices[of d p ns vs ob c]
proof (elim disjE exE conjE)
  assume "devices (snd (SetSwitchValue d p ns vs ob c)) = devices c"
  then show ?thesis by (rule set_like_same)
next
  fix dev q
  assume dv: "map_of (devices c) d = Some dev" and pr: "dev_SwitchProperties dev p = Some q"
    and c': "devices (snd (SetSwitchValue d p ns vs ob c)) =
        AList.update d (dev\<lparr>dev_SwitchProperties := (dev_SwitchProperties dev)(p \<mapsto> q\<lparr>prop_State := PropertyStateBusy\<rparr>)\<rparr>)
          (devices c)"
  show ?thesis
    by (rule set_like_busy[OF dv _ c', where q = q and st = PropertyStateBusy])
       (simp_all add: pr)
qed

lemma SetBlobValue_devices:
  "devices (snd (SetBlobValue d p n v f sz ob c)) = devices c \<or>
   (\<exists>dev q. map_of (devices c) d = Some dev \<and> dev_BlobProperties dev p = Some q \<and>
      devices (snd (SetBlobValue d p n v f sz ob c)) =
        AList.update d (dev\<lparr>dev_BlobProperties := (dev_BlobProperties dev)(p \<mapsto> q\<lparr>prop_State := PropertyStateBusy\<rparr>)\<rparr>)
          (devices c))"
  by (simp add: SetBlobValue_def Lock_def Unlock_def Let_def findDevice_def
      split: option.split)

lemma SetBlobValue_props: "set_like c (snd (SetBlobValue d p n v f sz ob c)) Blob d p"
  using SetBlobValue_devices[of d p n v f sz ob c]
proof (elim disjE exE conjE)
  assume "devices (snd (SetBlobValue d p n v f sz ob c)) = devices c"
  then show ?thesis by (rule set_like_same)
next
  fix dev q
  assume dv: "map_of (devices c) d = Some dev" and pr: "dev_BlobProperties dev p = Some q"
    and c': "devices (snd (SetBlobValue d p n v f sz ob c)) =
        AList.update d (dev\<lparr>dev_BlobProperties := (dev_BlobProperties dev)(p \<mapsto> q\<lparr>prop_State := PropertyStateBusy\<rparr>)\<rparr>)
          (devices c)"
  show ?thesis
    by (rule set_like_busy[OF dv _ c', where q = q and st = PropertyStateBusy])
       (simp_all add: pr)
qed

lemma update_same: "map_of al k = Some v \<Longrightarrow> AList.update k v al = al"
  by (induction al) (auto split: if_splits)

lemma GetBlob_devices: "devices (snd (GetBlob E d p n c)) = devices c"
proof -
  have r: "AList.update d (dev\<lparr>dev_BlobProperties := (dev_BlobProperties dev)(p \<mapsto> q)\<rparr>) (devices c)
            = devices c"
    if "map_of (devices c) d = Some dev" and "dev_BlobProperties dev p = Some q" for dev q
  proof -
    have "(dev_BlobProperties dev)(p \<mapsto> q) = dev_BlobProperties dev"
      using that(2) by (rule map_upd_triv)
    then have "dev\<lparr>dev_BlobProperties := (dev_BlobProperties dev)(p \<mapsto> q)\<rparr> = dev" by simp
    then show ?thesis using that(1) by (simp add: update_same)
  qed
  show ?thesis
    by (simp add: GetBlob_def Lock_def Unlock_def Let_def findDevice_def r
        split: option.split)
qed

lemma purge_props:
  assumes "devices c' = devices c \<or> devices c' = devices (delProperty E item c)"
  shows "props c' k d p = None \<or> props c' k d p = props c k d p"
  using assms delProperty_props[of E item c k d p] by (auto simp: props_def)

lemma delProperty_rwm: "devices (delProperty E item (c\<lparr>rwm := b\<rparr>)) = devices (delProperty E item c)"
  by (simp add: delProperty_def Let_def findOrCreateDevice_def findDevice_def split: list.split)

lemma Connect_devices:
  "devices (snd (Connect E c)) = devices c \<or>
   devices (snd (Connect E c)) = devices (delProperty E \<lparr>del_Device = [], del_Name = []\<rparr> c)"
  by (simp add: Connect_def Lock_def Unlock_def Let_def delProperty_rwm
      split: option.split)

lemma Disconnect_devices:
  "devices (snd (Disconnect E c)) = devices c \<or>
   devices (snd (Disconnect E c)) = devices (delProperty E \<lparr>del_Device = [], del_Name = []\<rparr> c)"
  by (simp add: Disconnect_def Lock_def Unlock_def Let_def delProperty_rwm
      split: option.split)

subsection \<open>The effect of one step on the properties\<close>

lemma props_rwm [simp]: "props (c\<lparr>rwm := b\<rparr>) = props c"
  by (simp add: props_def fun_eq_iff)

lemma props_Unlock [simp]: "props (Unlock c) = props c"
  by (simp add: Unlock_def)

lemma handle_def_effect:
  assumes "def_of i = Some (k, item)"
  shows "\<exists>q. fresh_prop k item q \<and>
           (\<forall>c. updates_at c (handle E i c) k (item_Device item) (item_Name item) q)"
  using assms
  by (cases i; simp)
     (rule defTextVector_props defSwitchVector_props defNumberVector_props
        defLightVector_props defBlobVector_props)+

lemma handle_set_effect:
  assumes "set_of i = Some (k, item)"
  shows "set_like c (handle E i c) k (item_Device item) (item_Name item)"
  using assms
  by (cases i; simp)
     (rule setTextVector_props setSwitchVector_props setNumberVector_props
        setLightVector_props setBlobVector_props)+

lemma handle_other_effect:
  assumes "def_of i = None" and "set_of i = None"
  shows "props (handle E i c) k d p = None \<or> props (handle E i c) k d p = props c k d p"
  using assms by (cases i) (simp_all add: message_props delProperty_props)

lemma def_or_set: "def_of i = None \<or> set_of i = None"
  by (cases i) simp_all

text \<open>Pointwise: a property is gone, or it is an update of the one before with the same names.\<close>

lemma kept_unchanged:
  assumes "props c' k d p = None \<or> props c' k d p = props c k d p"
  shows "props c' k d p = None \<or>
         (\<exists>q q'. props c k d p = Some q \<and> props c' k d p = Some q' \<and> same_names k q q')"
proof (cases "props c' k d p")
  case None
  then show ?thesis by simp
next
  case (Some q')
  with assms have "props c k d p = Some q'" by simp
  with Some show ?thesis using same_names_refl by blast
qed

lemma kept_set_like:
  assumes "set_like c c' k0 d0 p0"
  shows "props c' k d p = None \<or>
         (\<exists>q q'. props c k d p = Some q \<and> props c' k d p = Some q' \<and> same_names k q q')"
  using assms unfolding set_like_def
proof (elim disjE exE conjE)
  assume "\<forall>k' d'. props c' k' d' = props c k' d'"
  then have "props c' k d p = props c k d p" by simp
  then show ?thesis by (intro kept_unchanged) simp
next
  fix q q'
  assume q: "props c k0 d0 p0 = Some q" and s: "same_names k0 q q'"
    and u: "updates_at c c' k0 d0 p0 q'"
  show ?thesis
  proof (cases "k = k0 \<and> d = d0 \<and> p = p0")
    case True
    then have "props c' k d p = Some q'" using u by (simp add: updates_at_def)
    with True q s show ?thesis by blast
  next
    case False
    then have "props c' k d p = props c k d p" using u by (auto simp: updates_at_def)
    then show ?thesis by (intro kept_unchanged) simp
  qed
qed

lemma kept_devices:
  assumes "devices c' = devices c"
  shows "props c' k d p = None \<or>
         (\<exists>q q'. props c k d p = Some q \<and> props c' k d p = Some q' \<and> same_names k q q')"
  by (rule kept_unchanged) (simp add: props_def assms)

lemma handle_kept:
  assumes "defined_by k d p (Inbound E i) = None"
  shows "props (handle E i c) k d p = None \<or>
         (\<exists>q q'. props c k d p = Some q \<and> props (handle E i c) k d p = Some q' \<and> same_names k q q')"
proof (cases "def_of i")
  case None
  show ?thesis
  proof (cases "set_of i")
    case n: None
    show ?thesis by (rule kept_unchanged) (rule handle_other_effect[OF None n])
  next
    case (Some a)
    obtain k0 item where "set_of i = Some (k0, item)" using Some by (cases a) simp
    then show ?thesis by (rule kept_set_like[OF handle_set_effect])
  qed
next
  case (Some a)
  obtain k0 item where a: "def_of i = Some (k0, item)" using Some by (cases a) simp
  from handle_def_effect[OF a, of E] obtain q where
    u: "updates_at c (handle E i c) k0 (item_Device item) (item_Name item) q" by blast
  from assms a have "\<not> (k = k0 \<and> d = item_Device item \<and> p = item_Name item)"
    by (auto split: if_splits)
  then have "props (handle E i c) k d p = props c k d p" using u by (auto simp: updates_at_def)
  then show ?thesis by (intro kept_unchanged) simp
qed

lemma handle_rwm: "rwm (handle E i c) = rwm c"
  by (cases i)
     (simp_all add: defTextVector_def defSwitchVector_def defNumberVector_def defLightVector_def
        defBlobVector_def setTextVector_def setSwitchVector_def setNumberVector_def
        setLightVector_def setBlobVector_def message_def delProperty_def Let_def split_beta
        split: sum.split option.split list.split)

lemma step_kept:
  assumes st: "step e c = Some c'" and nd: "defined_by k d p e = None"
  shows "props c' k d p = None \<or>
         (\<exists>q q'. props c k d p = Some q \<and> props c' k d p = Some q' \<and> same_names k q q')"
proof (cases e)
  case (Inbound E i)
  with st have c': "c' = Unlock (handle E i (c\<lparr>rwm := True\<rparr>))"
    by (simp add: dispatch_def Lock_def split: if_splits)
  from nd Inbound have "defined_by k d p (Inbound E i) = None" by simp
  from handle_kept[OF this, of "c\<lparr>rwm := True\<rparr>"] show ?thesis by (simp add: c')
next
  case (CallSetTextValue d0 p0 ns vs)
  with st have c': "c' = snd (SetTextValue d0 p0 ns vs [] c)" by (simp split: if_splits)
  show ?thesis unfolding c' by (rule kept_set_like[OF SetTextValue_props])
next
  case (CallSetNumberValue d0 p0 ns vs)
  with st have c': "c' = snd (SetNumberValue d0 p0 ns vs [] c)" by (simp split: if_splits)
  show ?thesis unfolding c' by (rule kept_set_like[OF SetNumberValue_props])
next
  case (CallSetSwitchValue d0 p0 ns vs)
  with st have c': "c' = snd (SetSwitchValue d0 p0 ns vs [] c)" by (simp split: if_splits)
  show ?thesis unfolding c' by (rule kept_set_like[OF SetSwitchValue_props])
next
  case (CallSetBlobValue d0 p0 n v f sz)
  with st have c': "c' = snd (SetBlobValue d0 p0 n v f sz [] c)" by (simp split: if_splits)
  show ?thesis unfolding c' by (rule kept_set_like[OF SetBlobValue_props])
next
  case (CallGetBlob E d0 p0 n)
  with st have c': "c' = snd (GetBlob E d0 p0 n c)" by (simp split: if_splits)
  show ?thesis unfolding c' by (rule kept_devices[OF GetBlob_devices])
next
  case (CallConnect E)
  with st have c': "c' = snd (Connect E c)" by (simp split: if_splits)
  show ?thesis unfolding c' by (rule kept_unchanged[OF purge_props[OF Connect_devices]])
next
  case (CallDisconnect E)
  with st have c': "c' = snd (Disconnect E c)" by (simp split: if_splits)
  show ?thesis unfolding c' by (rule kept_unchanged[OF purge_props[OF Disconnect_devices]])
qed

lemma step_defined:
  assumes st: "step e c = Some c'" and df: "defined_by k d p e = Some item"
  shows "\<exists>q. props c' k d p = Some q \<and> fresh_prop k item q"
proof (cases e)
  case (Inbound E i)
  with st have c': "c' = Unlock (handle E i (c\<lparr>rwm := True\<rparr>))"
    by (simp add: dispatch_def Lock_def split: if_splits)
  from df Inbound have a: "def_of i = Some (k, item)" and b: "item_Device item = d" "item_Name item = p"
    by (auto split: option.splits if_splits)
  from handle_def_effect[OF a, of E] obtain q where
    f: "fresh_prop k item q" and
    u: "updates_at (c\<lparr>rwm := True\<rparr>) (handle E i (c\<lparr>rwm := True\<rparr>)) k (item_Device item) (item_Name item) q"
    by blast
  from u b have "props c' k d p = Some q" by (simp add: updates_at_def c')
  with f show ?thesis by blast
qed (use df in simp_all)

subsection \<open>Sequences of steps\<close>

lemma run_snoc:
  "run (es @ [e]) c = (case run es c of None \<Rightarrow> None | Some c' \<Rightarrow> step e c')"
  by (induction es arbitrary: c) (auto split: option.split)

lemma last_def_snoc:
  "last_def k d p (es @ [e]) =
     (case defined_by k d p e of Some item \<Rightarrow> Some item | None \<Rightarrow> last_def k d p es)"
  by (induction es) (auto split: option.split)

lemma from_def_fresh: "fresh_prop k item q \<Longrightarrow> from_def k item q"
  by (auto simp: fresh_prop_def from_def_def good_blob_def)

lemma from_def_same_names:
  assumes "from_def k item q" and "same_names k q q'"
  shows "from_def k item q'"
proof -
  have d: "dom (prop_Values q') = el_Name ` set (item_Elems item)"
    using assms by (simp add: from_def_def same_names_def)
  have "val_Name v' = n \<and> (k = Blob \<longrightarrow> good_blob v')" if v': "prop_Values q' n = Some v'" for n v'
  proof -
    from v' assms(2) obtain v where v: "prop_Values q n = Some v"
      unfolding same_names_def by (metis domD domI)
    from assms(1) v have "val_Name v = n \<and> (k = Blob \<longrightarrow> good_blob v)"
      unfolding from_def_def by blast
    moreover from assms(2) v v' have "val_Name v' = val_Name v \<and> (k = Blob \<longrightarrow> good_blob v \<longrightarrow> good_blob v')"
      unfolding same_names_def by blast
    ultimately show ?thesis by simp
  qed
  with d show ?thesis unfolding from_def_def by blast
qed


lemma props_no_devices: "devices c = [] \<Longrightarrow> props c k d = Map.empty"
  by (simp add: props_def)

lemma run_from_def:
  assumes "run es c0 = Some c" and "devices c0 = []" and "props c k d p = Some q"
  shows "\<exists>item. last_def k d p es = Some item \<and> from_def k item q"
  using assms(1,3)
proof (induction es arbitrary: c q rule: rev_induct)
  case Nil
  then show ?case using assms(2) by (simp add: props_no_devices)
next
  case (snoc e es)
  from snoc.prems(1) obtain c1 where r: "run es c0 = Some c1" and st: "step e c1 = Some c"
    by (auto simp: run_snoc split: option.splits)
  show ?case
  proof (cases "defined_by k d p e")
    case None
    from step_kept[OF st None] snoc.prems(2) obtain q1 where
      q1: "props c1 k d p = Some q1" and s: "same_names k q1 q" by auto
    from snoc.IH[OF r q1] obtain item where
      l: "last_def k d p es = Some item" and f: "from_def k item q1" by blast
    have "last_def k d p (es @ [e]) = Some item" using None l by (simp add: last_def_snoc)
    moreover have "from_def k item q" using f s by (rule from_def_same_names)
    ultimately show ?thesis by blast
  next
    case (Some item)
    from step_defined[OF st Some] snoc.prems(2) have "fresh_prop k item q" by auto
    then show ?thesis using Some by (simp add: last_def_snoc from_def_fresh)
  qed
qed

lemma process_snoc: "process (ms @ [(E, i)]) c = handle E i (process ms c)"
proof (induction ms arbitrary: c)
  case Nil
  show ?case by simp
next
  case (Cons m ms)
  obtain E' i' where m: "m = (E', i')" by (cases m)
  show ?case unfolding m by (simp add: Cons.IH)
qed

lemma process_rwm: "rwm (process ms c) = rwm c"
proof (induction ms arbitrary: c)
  case Nil
  show ?case by simp
next
  case (Cons m ms)
  obtain E' i' where m: "m = (E', i')" by (cases m)
  show ?case unfolding m by (simp add: Cons.IH handle_rwm)
qed

lemma Unlock_Lock: "\<not> rwm c \<Longrightarrow> Unlock (c\<lparr>rwm := True\<rparr>) = c"
  by (simp add: Unlock_def)

lemma findDevice_rwm [simp]: "findDevice (c\<lparr>rwm := b\<rparr>) d = findDevice c d"
  by (simp add: findDevice_def)

lemma findOrCreateDevice_rwm [simp]:
  "findOrCreateDevice (c\<lparr>rwm := b\<rparr>) d = findOrCreateDevice c d"
  by (simp add: findOrCreateDevice_def)

lemma def_locked:
  "defTextVector E item (c\<lparr>rwm := b\<rparr>) = (defTextVector E item c)\<lparr>rwm := b\<rparr>"
  "defSwitchVector E item (c\<lparr>rwm := b\<rparr>) = (defSwitchVector E item c)\<lparr>rwm := b\<rparr>"
  "defNumberVector E item (c\<lparr>rwm := b\<rparr>) = (defNumberVector E item c)\<lparr>rwm := b\<rparr>"
  "defLightVector E item (c\<lparr>rwm := b\<rparr>) = (defLightVector E item c)\<lparr>rwm := b\<rparr>"
  "defBlobVector E item (c\<lparr>rwm := b\<rparr>) = (defBlobVector E item c)\<lparr>rwm := b\<rparr>"
  by (simp_all add: defTextVector_def defSwitchVector_def defNumberVector_def
      defLightVector_def defBlobVector_def Let_def)

lemma set_locked:
  "setTextVector E item (c\<lparr>rwm := b\<rparr>) = (setTextVector E item c)\<lparr>rwm := b\<rparr>"
  "setSwitchVector E item (c\<lparr>rwm := b\<rparr>) = (setSwitchVector E item c)\<lparr>rwm := b\<rparr>"
  "setNumberVector E item (c\<lparr>rwm := b\<rparr>) = (setNumberVector E item c)\<lparr>rwm := b\<rparr>"
  "setLightVector E item (c\<lparr>rwm := b\<rparr>) = (setLightVector E item c)\<lparr>rwm := b\<rparr>"
  by (simp_all add: setTextVector_def setSwitchVector_def setNumberVector_def
      setLightVector_def Let_def split: sum.split option.split)

lemma setBlob_locked:
  "setBlobVector E item (c\<lparr>rwm := b\<rparr>) = (setBlobVector E item c)\<lparr>rwm := b\<rparr>"
  by (simp add: setBlobVector_def Let_def split_beta split: sum.split option.split)

lemma message_locked: "message E item (c\<lparr>rwm := b\<rparr>) = (message E item c)\<lparr>rwm := b\<rparr>"
  by (simp add: message_def Let_def split: sum.split)

lemma delProperty_locked:
  "delProperty E item (c\<lparr>rwm := b\<rparr>) = (delProperty E item c)\<lparr>rwm := b\<rparr>"
  by (simp add: delProperty_def Let_def split: list.split)

lemma handle_locked: "handle E i (c\<lparr>rwm := b\<rparr>) = (handle E i c)\<lparr>rwm := b\<rparr>"
  by (cases i)
     (simp_all add: def_locked set_locked setBlob_locked message_locked delProperty_locked)

lemma dispatch_handle: "\<not> rwm c \<Longrightarrow> dispatch E i c = Some (handle E i c)"
  by (simp add: dispatch_def Lock_def Unlock_def handle_locked handle_rwm)

lemma run_process:
  "\<not> rwm c \<Longrightarrow> run (map (\<lambda>(E, i). Inbound E i) ms) c = Some (process ms c)"
proof (induction ms arbitrary: c)
  case Nil
  show ?case by simp
next
  case (Cons m ms)
  obtain E' i' where m: "m = (E', i')" by (cases m)
  have "\<not> rwm (handle E' i' c)" using Cons.prems by (simp add: handle_rwm)
  then show ?case unfolding m using Cons.prems by (simp add: dispatch_handle Cons.IH)
qed

subsection \<open>Deletion\<close>

lemma delProperty_purge_devices:
  "devices (delProperty E \<lparr>del_Device = [], del_Name = []\<rparr> c) =
     (if devices c = [] then []
      else AList.delete (fst (devices c ! (RangeSeed E mod length (devices c)))) (devices c))"
  by (cases "devices c") (simp_all add: delProperty_def Let_def)

text \<open>
  Whatever key the iteration yields first, a catalog with two devices keeps one of them
  through the purge of \<^verbatim>\<open>delProperty\<close>.
\<close>

lemma delProperty_purge_keeps_a_device:
  assumes "map_of (devices c) k1 = Some d1" "map_of (devices c) k2 = Some d2" "k1 \<noteq> k2"
  shows "devices (delProperty E \<lparr>del_Device = [], del_Name = []\<rparr> c) \<noteq> []"
proof -
  define key where "key = fst (devices c ! (RangeSeed E mod length (devices c)))"
  from assms(1) have ne: "devices c \<noteq> []" by auto
  have m: "map_of (devices (delProperty E \<lparr>del_Device = [], del_Name = []\<rparr> c))
            = (map_of (devices c))(key := None)"
    using ne by (simp add: delProperty_purge_devices key_def delete_conv')
  have "key \<noteq> k1 \<or> key \<noteq> k2" using assms(3) by auto
  then have "map_of (devices (delProperty E \<lparr>del_Device = [], del_Name = []\<rparr> c)) k1 \<noteq> None
     \<or> map_of (devices (delProperty E \<lparr>del_Device = [], del_Name = []\<rparr> c)) k2 \<noteq> None"
    using assms(1,2) by (auto simp: m)
  then show ?thesis by auto
qed

lemma update_fresh: "map_of al k = None \<Longrightarrow> AList.update k v al = al @ [(k, v)]"
  by (induction al) (auto split: if_splits)

lemma twoDevices_eq:
  "\<exists>d1 d2. twoDevices = \<lparr>devices = [(''Telescope Simulator'', d1), (''CCD Simulator'', d2)],
      conn = False, read_chan = None, write_chan = None, rwm = False, fs = Map.empty\<rparr>"
  by (simp add: twoDevices_def NewINDIClient_def defSwitchVector_def defBlobVector_def
      defConnection_def defCCD1_def mkVector_def mkElement_def Let_def
      findOrCreateDevice_def findDevice_def)

text \<open>
  C1. Processing a delProperty message with an empty device name is claimed to remove
  every device, so that after Disconnect the list of devices is empty, also for a catalog
  with two or more devices. The code deletes the first key its loop yields and returns:
  with the two devices Telescope Simulator and CCD Simulator in the catalog, Disconnect
  leaves exactly one of them, whatever the order of iteration and the result of closing
  the connection.
\<close>

theorem Disconnect_two_devices_leaves_one:
  "\<exists>name. fst (Devices (snd (Disconnect E twoDevices))) = Some [name]"
proof -
  from twoDevices_eq obtain d1 d2 where
    t: "twoDevices = \<lparr>devices = [(''Telescope Simulator'', d1), (''CCD Simulator'', d2)],
      conn = False, read_chan = None, write_chan = None, rwm = False, fs = Map.empty\<rparr>"
    by blast
  show ?thesis
  proof (cases "RangeSeed E mod Suc (Suc 0) = 0")
    case True
    then show ?thesis unfolding t
      by (simp add: Devices_def Disconnect_def delProperty_def Lock_def Unlock_def RLock_def
          Let_def)
  next
    case False
    then have "RangeSeed E mod Suc (Suc 0) = Suc 0" by presburger
    then show ?thesis unfolding t
      by (simp add: Devices_def Disconnect_def delProperty_def Lock_def Unlock_def RLock_def
          Let_def)
  qed
qed

text \<open>
  C10. Processing a delProperty message whose device name is non-empty and absent from
  the catalog, and whose property name is non-empty, adds a device entry to the catalog:
  the device has that name, five empty property maps and no messages, and the devices
  held before stay as they are.
\<close>

theorem delProperty_creates_device:
  assumes "del_Device item \<noteq> []" and "del_Name item \<noteq> []"
    and "map_of (devices c) (del_Device item) = None"
  shows "devices (delProperty E item c) =
           devices c @ [(del_Device item,
              \<lparr>dev_Name = del_Device item, dev_TextProperties = Map.empty,
               dev_SwitchProperties = Map.empty, dev_NumberProperties = Map.empty,
               dev_LightProperties = Map.empty, dev_BlobProperties = Map.empty,
               dev_Messages = []\<rparr>)]"
  using assms
  by (simp add: delProperty_def findOrCreateDevice_def findDevice_def Let_def update_fresh)

theorem delProperty_creates_device_witness:
  "''Ghost'' \<noteq> [] \<and> ''FOCUS'' \<noteq> [] \<and>
   map_of (devices (NewINDIClient Map.empty)) ''Ghost'' = None \<and>
   devices (delProperty env0 \<lparr>del_Device = ''Ghost'', del_Name = ''FOCUS''\<rparr>
              (NewINDIClient Map.empty)) =
     [(''Ghost'', \<lparr>dev_Name = ''Ghost'', dev_TextProperties = Map.empty,
               dev_SwitchProperties = Map.empty, dev_NumberProperties = Map.empty,
               dev_LightProperties = Map.empty, dev_BlobProperties = Map.empty,
               dev_Messages = []\<rparr>)]"
  using delProperty_creates_device
          [of "\<lparr>del_Device = ''Ghost'', del_Name = ''FOCUS''\<rparr>" "NewINDIClient Map.empty" env0]
  by (simp add: NewINDIClient_def)

end
